theory Spec2Isabelle
  imports Complex_Main "HOL-Library.Multiset" "HOL-Library.Log_Nat"
begin

section \<open>JavaScript numbers\<close>

text \<open>
  The grade book computes with JavaScript numbers, which are IEEE 754 doubles. A finite
  double is a rational \<open>m * 2 ^ p\<close> with \<open>\<bar>m\<bar> < 2 ^ 53\<close> and \<open>- 1074 \<le> p\<close>, below
  \<open>2 ^ 1024\<close> in magnitude; \<open>Fin\<close> carries it, and the three other values are \<open>Infinity\<close>,
  \<open>-Infinity\<close> and \<open>NaN\<close>. The two zeros are not told apart: no divisor of the source can
  be \<open>-0\<close> (each is a length or a sum that starts at \<open>+0\<close>), and comparison, \<open>||\<close>
  and the sort treat them alike.
\<close>

datatype jsnum = Fin rat | PInf | NInf | NaN

text \<open>
  Rounding to the nearest double, ties to the even significand. For \<open>x > 0\<close>, \<open>binade x\<close> is
  the \<open>e\<close> with \<open>2 ^ e \<le> x < 2 ^ (e + 1)\<close>; the doubles around \<open>x\<close> are the multiples of
  \<open>2 ^ ulp_exp x\<close>, which is \<open>2 ^ (e - 52)\<close> and never below \<open>2 ^ (- 1074)\<close> (the
  subnormal range). A result of magnitude \<open>2 ^ 1024\<close> is an overflow.
\<close>

definition binade :: "rat \<Rightarrow> int" where
  "binade x =
     (case quotient_of x of
        (a, b) \<Rightarrow> (if 2 powi (bitlen a - bitlen b) \<le> x
                   then bitlen a - bitlen b else bitlen a - bitlen b - 1))"

definition round_half_even :: "rat \<Rightarrow> int" where
  "round_half_even x =
     (if x - of_int \<lfloor>x\<rfloor> < 1 / 2 then \<lfloor>x\<rfloor>
      else if 1 / 2 < x - of_int \<lfloor>x\<rfloor> then \<lfloor>x\<rfloor> + 1
      else if even \<lfloor>x\<rfloor> then \<lfloor>x\<rfloor> else \<lfloor>x\<rfloor> + 1)"

definition ulp_exp :: "rat \<Rightarrow> int" where
  "ulp_exp x = max (binade \<bar>x\<bar> - 52) (- 1074)"

definition fl :: "rat \<Rightarrow> jsnum" where
  "fl x =
     (if x = 0 then Fin 0
      else if (2::rat) powi 1024 \<le> \<bar>of_int (round_half_even (x / 2 powi ulp_exp x)) * 2 powi ulp_exp x\<bar>
      then (if 0 < x then PInf else NInf)
      else Fin (of_int (round_half_even (x / 2 powi ulp_exp x)) * 2 powi ulp_exp x))"

text \<open>
  A number of the snapshot is given by its decimal numeral, as the store and the forms
  write it; the number the code holds is the double nearest to it. Every number the
  model computes with is read in this way or is the result of a rounded operation.
\<close>

type_synonym decimal = rat

definition number_of :: "decimal \<Rightarrow> jsnum" where
  "number_of d = fl d"

text \<open>The arithmetic of doubles: the exact result, rounded.\<close>

fun js_neg :: "jsnum \<Rightarrow> jsnum" where
  "js_neg (Fin a) = Fin (- a)"
| "js_neg PInf = NInf"
| "js_neg NInf = PInf"
| "js_neg NaN = NaN"

fun js_add :: "jsnum \<Rightarrow> jsnum \<Rightarrow> jsnum" where
  "js_add (Fin a) (Fin b) = fl (a + b)"
| "js_add (Fin a) PInf = PInf"
| "js_add (Fin a) NInf = NInf"
| "js_add PInf (Fin b) = PInf"
| "js_add PInf PInf = PInf"
| "js_add PInf NInf = NaN"
| "js_add NInf (Fin b) = NInf"
| "js_add NInf PInf = NaN"
| "js_add NInf NInf = NInf"
| "js_add NaN y = NaN"
| "js_add x NaN = NaN"

definition js_sub :: "jsnum \<Rightarrow> jsnum \<Rightarrow> jsnum" where
  "js_sub x y = js_add x (js_neg y)"

fun js_mul :: "jsnum \<Rightarrow> jsnum \<Rightarrow> jsnum" where
  "js_mul (Fin a) (Fin b) = fl (a * b)"
| "js_mul (Fin a) PInf = (if a = 0 then NaN else if 0 < a then PInf else NInf)"
| "js_mul (Fin a) NInf = (if a = 0 then NaN else if 0 < a then NInf else PInf)"
| "js_mul PInf (Fin b) = (if b = 0 then NaN else if 0 < b then PInf else NInf)"
| "js_mul NInf (Fin b) = (if b = 0 then NaN else if 0 < b then NInf else PInf)"
| "js_mul PInf PInf = PInf"
| "js_mul PInf NInf = NInf"
| "js_mul NInf PInf = NInf"
| "js_mul NInf NInf = PInf"
| "js_mul NaN y = NaN"
| "js_mul x NaN = NaN"

text \<open>A zero divisor is \<open>+0\<close>: a positive number over it is \<open>Infinity\<close>, zero over it \<open>NaN\<close>.\<close>

fun js_div :: "jsnum \<Rightarrow> jsnum \<Rightarrow> jsnum" where
  "js_div (Fin a) (Fin b) =
     (if b \<noteq> 0 then fl (a / b)
      else if 0 < a then PInf else if a < 0 then NInf else NaN)"
| "js_div (Fin a) PInf = Fin 0"
| "js_div (Fin a) NInf = Fin 0"
| "js_div PInf (Fin b) = (if 0 \<le> b then PInf else NInf)"
| "js_div NInf (Fin b) = (if 0 \<le> b then NInf else PInf)"
| "js_div PInf PInf = NaN"
| "js_div PInf NInf = NaN"
| "js_div NInf PInf = NaN"
| "js_div NInf NInf = NaN"
| "js_div NaN y = NaN"
| "js_div x NaN = NaN"

text \<open>\<open>x > y\<close> and \<open>x >= y\<close>: false as soon as one side is \<open>NaN\<close>.\<close>

fun js_gt :: "jsnum \<Rightarrow> jsnum \<Rightarrow> bool" where
  "js_gt (Fin a) (Fin b) = (b < a)"
| "js_gt (Fin a) PInf = False"
| "js_gt (Fin a) NInf = True"
| "js_gt PInf (Fin b) = True"
| "js_gt PInf PInf = False"
| "js_gt PInf NInf = True"
| "js_gt NInf y = False"
| "js_gt NaN y = False"
| "js_gt x NaN = False"

fun js_ge :: "jsnum \<Rightarrow> jsnum \<Rightarrow> bool" where
  "js_ge (Fin a) (Fin b) = (b \<le> a)"
| "js_ge (Fin a) PInf = False"
| "js_ge (Fin a) NInf = True"
| "js_ge PInf (Fin b) = True"
| "js_ge PInf PInf = True"
| "js_ge PInf NInf = True"
| "js_ge NInf (Fin b) = False"
| "js_ge NInf PInf = False"
| "js_ge NInf NInf = True"
| "js_ge NaN y = False"
| "js_ge x NaN = False"

text \<open>\<open>x || 0\<close> on a number: \<open>0\<close> and \<open>NaN\<close> are falsy.\<close>

fun js_or0 :: "jsnum \<Rightarrow> jsnum" where
  "js_or0 (Fin a) = (if a = 0 then Fin 0 else Fin a)"
| "js_or0 PInf = PInf"
| "js_or0 NInf = NInf"
| "js_or0 NaN = Fin 0"

text \<open>\<open>xs.reduce((sum, x) => sum + x, 0)\<close>.\<close>

definition js_sum :: "jsnum list \<Rightarrow> jsnum" where
  "js_sum xs = fold (\<lambda>x s. js_add s x) xs (Fin 0)"

text \<open>
  \<open>[...xs].sort(cmp)\<close>. The sort of the language is stable and puts \<open>a\<close> after \<open>b\<close>
  when \<open>cmp(a, b) > 0\<close>; a \<open>NaN\<close> from the comparator counts as \<open>0\<close>. It is modelled by
  the stable insertion sort. The language fixes the result for a consistent comparator
  only, where every stable sort gives the same list; on the comparators of the source
  that is the case unless a \<open>NaN\<close> average stands beside two different averages.
\<close>

fun js_insert :: "('a \<Rightarrow> 'a \<Rightarrow> jsnum) \<Rightarrow> 'a \<Rightarrow> 'a list \<Rightarrow> 'a list" where
  "js_insert cmp x [] = [x]"
| "js_insert cmp x (y # ys) =
     (if js_gt (cmp x y) (Fin 0) then y # js_insert cmp x ys else x # y # ys)"

definition js_sort :: "('a \<Rightarrow> 'a \<Rightarrow> jsnum) \<Rightarrow> 'a list \<Rightarrow> 'a list" where
  "js_sort cmp xs = foldr (js_insert cmp) xs []"

section \<open>Data model (types.ts)\<close>

record Student =
  student_id :: string
  student_name :: string

record Subject =
  subject_id :: string
  subject_name :: string
  total :: decimal

record Mark =
  mark_id :: string
  studentId :: string
  subjectId :: string
  sequence :: string
  marks :: decimal

text \<open>
  A result row before ranking is \<open>{student, totalMarks, average}\<close>; a ranked row
  (SequenceResult, TermResult) adds \<open>rank\<close>.
\<close>

record Row =
  student :: string
  totalMarks :: jsnum
  average :: jsnum

record Ranked = Row +
  rank :: nat

record AnnualResult =
  annual_student :: string
  firstTermAverage :: jsnum
  secondTermAverage :: jsnum
  thirdTermAverage :: jsnum
  finalAverage :: jsnum
  annual_rank :: nat

definition PASSING_MARK :: rat where
  "PASSING_MARK = 10"

section \<open>Sequence aggregator (calculateSequenceResults)\<close>

text \<open>
  \<open>marks.find(m => m.studentId === student.id && m.subjectId === subject.id &&
  m.sequence === sequence)?.marks || 0\<close>, then \<open>Number(mark)\<close>.
\<close>

definition find_mark :: "Mark list \<Rightarrow> string \<Rightarrow> string \<Rightarrow> string \<Rightarrow> jsnum" where
  "find_mark ms sid subid sq =
     (case find (\<lambda>m. studentId m = sid \<and> subjectId m = subid \<and> sequence m = sq) ms of
        None \<Rightarrow> Fin 0
      | Some m \<Rightarrow> js_or0 (number_of (marks m)))"

text \<open>
  The loop \<open>subjects.forEach\<close> with its two accumulators, as it stands in the sequence
  aggregator (totalMarks, totalPossible) and in calculateTerm (sequenceMarks,
  sequencePossible).
\<close>

definition sum_subjects :: "Mark list \<Rightarrow> Subject list \<Rightarrow> string \<Rightarrow> string \<Rightarrow> jsnum \<times> jsnum" where
  "sum_subjects ms subs sid sq =
     fold (\<lambda>subject (tm, tp).
             (js_add tm (find_mark ms sid (subject_id subject) sq),
              js_add tp (number_of (total subject))))
       subs (Fin 0, Fin 0)"

definition sequence_row :: "Mark list \<Rightarrow> Subject list \<Rightarrow> string \<Rightarrow> Student \<Rightarrow> Row" where
  "sequence_row ms subs sq st =
     (case sum_subjects ms subs (student_id st) sq of
        (tm, tp) \<Rightarrow>
          \<lparr> student = student_name st,
            totalMarks = tm,
            average = (if js_gt tp (Fin 0) then js_mul (js_div tm tp) (Fin 20) else Fin 0) \<rparr>)"

definition sequence_rows :: "Student list \<Rightarrow> Subject list \<Rightarrow> Mark list \<Rightarrow> string \<Rightarrow> Row list" where
  "sequence_rows sts subs ms sq = map (sequence_row ms subs sq) sts"

text \<open>\<open>sortedResults.map((result, idx) => ({...result, rank: idx + 1}))\<close>.\<close>

definition row_with_rank :: "nat \<times> Row \<Rightarrow> Ranked" where
  "row_with_rank p =
     \<lparr> student = student (snd p), totalMarks = totalMarks (snd p),
       average = average (snd p), rank = fst p + 1 \<rparr>"

definition resultsWithRank :: "Row list \<Rightarrow> Ranked list" where
  "resultsWithRank rs =
     (let sortedResults = js_sort (\<lambda>a b. js_sub (average b) (average a)) rs
      in map row_with_rank (zip [0..<length sortedResults] sortedResults))"

definition classAvg :: "Row list \<Rightarrow> jsnum" where
  "classAvg rs = js_or0 (js_div (js_sum (map average rs)) (Fin (of_nat (length rs))))"

definition passCount :: "Row list \<Rightarrow> nat" where
  "passCount rs = length (filter (\<lambda>r. js_ge (average r) (Fin PASSING_MARK)) rs)"

definition passPerc :: "Row list \<Rightarrow> jsnum" where
  "passPerc rs =
     (if 0 < length rs
      then js_mul (js_div (Fin (of_nat (passCount rs))) (Fin (of_nat (length rs)))) (Fin 100)
      else Fin 0)"

section \<open>Term aggregator (calculateTerm)\<close>

definition termSequences_firstTerm :: "string list" where
  "termSequences_firstTerm = [''firstSequence'', ''secondSequence'']"

definition termSequences_secondTerm :: "string list" where
  "termSequences_secondTerm = [''thirdSequence'', ''fourthSequence'']"

definition termSequences_thirdTerm :: "string list" where
  "termSequences_thirdTerm = [''fifthSequence'', ''sixthSequence'']"

text \<open>
  One round of \<open>sequences.forEach\<close>: the state is (totalMarks, totalPossible,
  sequenceCount), written (tm, tp, sequenceCount), and a sequence is added only when \<open>sequenceMarks > 0\<close>.
\<close>

definition term_step :: "Mark list \<Rightarrow> Subject list \<Rightarrow> string \<Rightarrow> string \<Rightarrow>
    jsnum \<times> jsnum \<times> nat \<Rightarrow> jsnum \<times> jsnum \<times> nat" where
  "term_step ms subs sid sq acc =
     (case acc of (tm, tp, sequenceCount) \<Rightarrow>
        (case sum_subjects ms subs sid sq of (sequenceMarks, sequencePossible) \<Rightarrow>
           if js_gt sequenceMarks (Fin 0)
           then (js_add tm sequenceMarks, js_add tp sequencePossible, sequenceCount + 1)
           else (tm, tp, sequenceCount)))"

definition term_totals :: "Mark list \<Rightarrow> Subject list \<Rightarrow> string list \<Rightarrow> string \<Rightarrow>
    jsnum \<times> jsnum \<times> nat" where
  "term_totals ms subs sequences sid = fold (term_step ms subs sid) sequences (Fin 0, Fin 0, 0)"

definition term_row :: "Mark list \<Rightarrow> Subject list \<Rightarrow> string list \<Rightarrow> Student \<Rightarrow> Ranked" where
  "term_row ms subs sequences st =
     (case term_totals ms subs sequences (student_id st) of
        (tm, tp, sequenceCount) \<Rightarrow>
          \<lparr> student = student_name st,
            totalMarks = tm,
            average = (if 0 < sequenceCount then js_mul (js_div tm tp) (Fin 20) else Fin 0),
            rank = 0 \<rparr>)"

definition term_rows :: "Student list \<Rightarrow> Subject list \<Rightarrow> Mark list \<Rightarrow> string list \<Rightarrow> Ranked list" where
  "term_rows sts subs ms sequences = map (term_row ms subs sequences) sts"

definition set_rank :: "nat \<times> Ranked \<Rightarrow> Ranked" where
  "set_rank p = (snd p)\<lparr> rank := fst p + 1 \<rparr>"

definition rank_term_rows :: "Ranked list \<Rightarrow> Ranked list" where
  "rank_term_rows rs =
     (let sortedResults = js_sort (\<lambda>a b. js_sub (average b) (average a)) rs
      in map set_rank (zip [0..<length sortedResults] sortedResults))"

text \<open>The parameter \<open>term\<close> is not read by the source.\<close>

definition calculateTerm :: "Student list \<Rightarrow> Subject list \<Rightarrow> Mark list \<Rightarrow>
    string \<Rightarrow> string list \<Rightarrow> Ranked list" where
  "calculateTerm sts subs ms term_name sequences = rank_term_rows (term_rows sts subs ms sequences)"

section \<open>Annual aggregator\<close>

text \<open>\<open>termResults.find(r => r.student === student.name)?.average || 0\<close>.\<close>

definition find_average :: "Ranked list \<Rightarrow> string \<Rightarrow> jsnum" where
  "find_average rs nm =
     (case find (\<lambda>r. student r = nm) rs of None \<Rightarrow> Fin 0 | Some r \<Rightarrow> js_or0 (average r))"

definition validTerms :: "jsnum \<Rightarrow> jsnum \<Rightarrow> jsnum \<Rightarrow> jsnum list" where
  "validTerms a b c = filter (\<lambda>avg. js_gt avg (Fin 0)) [a, b, c]"

definition annual_row :: "Ranked list \<Rightarrow> Ranked list \<Rightarrow> Ranked list \<Rightarrow> Student \<Rightarrow> AnnualResult" where
  "annual_row firstRs secondRs thirdRs st =
     (let firstTermResult = find_average firstRs (student_name st);
          secondTermResult = find_average secondRs (student_name st);
          thirdTermResult = find_average thirdRs (student_name st);
          vt = validTerms firstTermResult secondTermResult thirdTermResult
      in \<lparr> annual_student = student_name st,
           firstTermAverage = firstTermResult,
           secondTermAverage = secondTermResult,
           thirdTermAverage = thirdTermResult,
           finalAverage =
             (if 0 < length vt then js_div (js_sum vt) (Fin (of_nat (length vt))) else Fin 0),
           annual_rank = 0 \<rparr>)"

definition annualResults_rows :: "Student list \<Rightarrow> Ranked list \<Rightarrow> Ranked list \<Rightarrow> Ranked list \<Rightarrow>
    AnnualResult list" where
  "annualResults_rows sts firstRs secondRs thirdRs = map (annual_row firstRs secondRs thirdRs) sts"

definition set_annual_rank :: "nat \<times> AnnualResult \<Rightarrow> AnnualResult" where
  "set_annual_rank p = (snd p)\<lparr> annual_rank := fst p + 1 \<rparr>"

definition annualResultsWithRank :: "AnnualResult list \<Rightarrow> AnnualResult list" where
  "annualResultsWithRank rs =
     (let sortedAnnualResults = js_sort (\<lambda>a b. js_sub (finalAverage b) (finalAverage a)) rs
      in map set_annual_rank (zip [0..<length sortedAnnualResults] sortedAnnualResults))"

section \<open>Statistics calculator (calculateStats)\<close>

text \<open>
  The argument is a list of term rows or of annual rows, and \<open>isAnnual\<close> chooses the
  field that is read. Read on rows of the other kind, the field is \<open>undefined\<close>, which
  the only use, \<open>avg > 0\<close>, treats as \<open>NaN\<close>.
\<close>

datatype stats_rows = TermRows "Ranked list" | AnnualRows "AnnualResult list"

fun stats_averages :: "stats_rows \<Rightarrow> bool \<Rightarrow> jsnum list" where
  "stats_averages (AnnualRows rs) True = map finalAverage rs"
| "stats_averages (TermRows rs) True = map (\<lambda>r. NaN) rs"
| "stats_averages (TermRows rs) False = map average rs"
| "stats_averages (AnnualRows rs) False = map (\<lambda>r. NaN) rs"

definition stats_of :: "jsnum list \<Rightarrow> jsnum \<times> jsnum" where
  "stats_of averages =
     (let validAverages = filter (\<lambda>avg. js_gt avg (Fin 0)) averages;
          cAvg = (if 0 < length validAverages
                  then js_div (js_sum validAverages) (Fin (of_nat (length validAverages)))
                  else Fin 0);
          pCount = length (filter (\<lambda>avg. js_ge avg (Fin PASSING_MARK)) validAverages);
          pPerc = (if 0 < length validAverages
                   then js_mul (js_div (Fin (of_nat pCount)) (Fin (of_nat (length validAverages))))
                          (Fin 100)
                   else Fin 0)
      in (cAvg, pPerc))"

definition calculateStats :: "stats_rows \<Rightarrow> bool \<Rightarrow> jsnum \<times> jsnum" where
  "calculateStats rs isAnnual = stats_of (stats_averages rs isAnnual)"

section \<open>Application state and the two entry points\<close>

text \<open>
  The component state the two handlers read and write. A statistic is \<open>null\<close> until it
  is first computed.
\<close>

record AppState =
  students :: "Student list"
  subjects :: "Subject list"
  markRecords :: "Mark list"
  selectedSequence :: string
  selectedResultView :: string
  sequenceResults :: "Ranked list"
  firstTermResults :: "Ranked list"
  secondTermResults :: "Ranked list"
  thirdTermResults :: "Ranked list"
  annualResults :: "AnnualResult list"
  sequenceClassAverage :: "jsnum option"
  firstTermClassAverage :: "jsnum option"
  secondTermClassAverage :: "jsnum option"
  thirdTermClassAverage :: "jsnum option"
  annualClassAverage :: "jsnum option"
  sequencePassPercentage :: "jsnum option"
  firstTermPassPercentage :: "jsnum option"
  secondTermPassPercentage :: "jsnum option"
  thirdTermPassPercentage :: "jsnum option"
  annualPassPercentage :: "jsnum option"

definition calculateSequenceResults :: "AppState \<Rightarrow> AppState" where
  "calculateSequenceResults s =
     (let results = sequence_rows (students s) (subjects s) (markRecords s) (selectedSequence s)
      in s\<lparr> sequenceResults := resultsWithRank results,
             sequenceClassAverage := Some (classAvg results),
             sequencePassPercentage := Some (passPerc results),
             selectedResultView := ''sequence'' \<rparr>)"

definition calculateTermResults :: "AppState \<Rightarrow> AppState" where
  "calculateTermResults s =
     (let firstRs = calculateTerm (students s) (subjects s) (markRecords s)
                      ''firstTerm'' termSequences_firstTerm;
          secondRs = calculateTerm (students s) (subjects s) (markRecords s)
                      ''secondTerm'' termSequences_secondTerm;
          thirdRs = calculateTerm (students s) (subjects s) (markRecords s)
                      ''thirdTerm'' termSequences_thirdTerm;
          annualRs = annualResultsWithRank (annualResults_rows (students s) firstRs secondRs thirdRs);
          firstTermStats = calculateStats (TermRows firstRs) False;
          secondTermStats = calculateStats (TermRows secondRs) False;
          thirdTermStats = calculateStats (TermRows thirdRs) False;
          annualStats = calculateStats (AnnualRows annualRs) True
      in s\<lparr> firstTermResults := firstRs,
             secondTermResults := secondRs,
             thirdTermResults := thirdRs,
             annualResults := annualRs,
             firstTermClassAverage := Some (fst firstTermStats),
             secondTermClassAverage := Some (fst secondTermStats),
             thirdTermClassAverage := Some (fst thirdTermStats),
             annualClassAverage := Some (fst annualStats),
             firstTermPassPercentage := Some (snd firstTermStats),
             secondTermPassPercentage := Some (snd secondTermStats),
             thirdTermPassPercentage := Some (snd thirdTermStats),
             annualPassPercentage := Some (snd annualStats),
             selectedResultView := ''firstTerm'' \<rparr>)"

section \<open>Report compiler (handleGenerateStudentReport)\<close>















section \<open>The words of the specification\<close>

text \<open>
  The student's mark value for a subject and a sequence, 0 when no Mark record matches;
  the sum of these over all subjects, taken in the order of the subject list; the sum of
  all subjects' totals; and the average out of 20. Sums, quotient and product are those
  of doubles.
\<close>

definition spec_mark_value :: "Mark list \<Rightarrow> string \<Rightarrow> string \<Rightarrow> string \<Rightarrow> jsnum" where
  "spec_mark_value ms sid subid sq =
     (case find (\<lambda>m. studentId m = sid \<and> subjectId m = subid \<and> sequence m = sq) ms of
        None \<Rightarrow> Fin 0
      | Some m \<Rightarrow> number_of (marks m))"

definition spec_totalMarks :: "Mark list \<Rightarrow> Subject list \<Rightarrow> string \<Rightarrow> string \<Rightarrow> jsnum" where
  "spec_totalMarks ms subs sid sq =
     js_sum (map (\<lambda>subject. spec_mark_value ms sid (subject_id subject) sq) subs)"

definition spec_totalPossible :: "Subject list \<Rightarrow> jsnum" where
  "spec_totalPossible subs = js_sum (map (\<lambda>subject. number_of (total subject)) subs)"

definition spec_average :: "jsnum \<Rightarrow> jsnum \<Rightarrow> jsnum" where
  "spec_average tm tp = (if js_gt tp (Fin 0) then js_mul (js_div tm tp) (Fin 20) else Fin 0)"

definition spec_sequence_average :: "Mark list \<Rightarrow> Subject list \<Rightarrow> string \<Rightarrow> Student \<Rightarrow> jsnum" where
  "spec_sequence_average ms subs sq st =
     spec_average (spec_totalMarks ms subs (student_id st) sq) (spec_totalPossible subs)"

text \<open>
  A sequence is entered for a student when the student's summed marks for it are above
  0; a term adds up the marks and the possible marks of its entered sequences and counts
  them.
\<close>

definition spec_entered :: "Mark list \<Rightarrow> Subject list \<Rightarrow> string \<Rightarrow> string \<Rightarrow> bool" where
  "spec_entered ms subs sid sq = js_gt (spec_totalMarks ms subs sid sq) (Fin 0)"

definition spec_term_totals :: "Mark list \<Rightarrow> Subject list \<Rightarrow> string list \<Rightarrow> string \<Rightarrow>
    jsnum \<times> jsnum \<times> nat" where
  "spec_term_totals ms subs sqs sid =
     (js_sum (map (spec_totalMarks ms subs sid) (filter (spec_entered ms subs sid) sqs)),
      js_sum (map (\<lambda>sq. spec_totalPossible subs) (filter (spec_entered ms subs sid) sqs)),
      length (filter (spec_entered ms subs sid) sqs))"

text \<open>
  A student's average in a term result set: the average of the first row that carries
  the student's display name, 0 when there is none.
\<close>

definition spec_term_average :: "Ranked list \<Rightarrow> string \<Rightarrow> jsnum" where
  "spec_term_average rs nm =
     (case find (\<lambda>r. student r = nm) rs of None \<Rightarrow> Fin 0 | Some r \<Rightarrow> average r)"

text \<open>The mean of the averages that are above 0, and 0 when there is none.\<close>

definition spec_mean_valid :: "jsnum list \<Rightarrow> jsnum" where
  "spec_mean_valid avgs =
     (if filter (\<lambda>avg. js_gt avg (Fin 0)) avgs = [] then Fin 0
      else js_div (js_sum (filter (\<lambda>avg. js_gt avg (Fin 0)) avgs))
             (Fin (of_nat (length (filter (\<lambda>avg. js_gt avg (Fin 0)) avgs)))))"

text \<open>
  The statistics of a list of averages: the arithmetic mean of all of them, and the
  share of them that reach the passing mark of 10, as a percentage; both 0 for the empty
  list.
\<close>

definition spec_class_average :: "jsnum list \<Rightarrow> jsnum" where
  "spec_class_average avgs =
     (if avgs = [] then Fin 0 else js_div (js_sum avgs) (Fin (of_nat (length avgs))))"

definition spec_pass_percentage :: "jsnum list \<Rightarrow> jsnum" where
  "spec_pass_percentage avgs =
     (if avgs = [] then Fin 0
      else js_mul (js_div (Fin (of_nat (length (filter (\<lambda>avg. js_ge avg (Fin 10)) avgs))))
                     (Fin (of_nat (length avgs))))
             (Fin 100))"

text \<open>A positive number, finite or not: what \<open>avg > 0\<close> lets through.\<close>

definition posnum :: "jsnum \<Rightarrow> bool" where
  "posnum x = (case x of Fin q \<Rightarrow> 0 < q | PInf \<Rightarrow> True | _ \<Rightarrow> False)"

section \<open>Example snapshots\<close>

text \<open>
  Two students and two subjects out of 20, with the marks of the first sequence.
\<close>

definition ex_students :: "Student list" where
  "ex_students =
     [\<lparr> student_id = ''a'', student_name = ''A'' \<rparr>,
      \<lparr> student_id = ''b'', student_name = ''B'' \<rparr>]"

definition ex_subjects :: "Subject list" where
  "ex_subjects =
     [\<lparr> subject_id = ''s1'', subject_name = ''Maths'', total = 20 \<rparr>,
      \<lparr> subject_id = ''s2'', subject_name = ''English'', total = 20 \<rparr>]"

definition ex_marks :: "Mark list" where
  "ex_marks =
     [\<lparr> mark_id = ''m1'', studentId = ''a'', subjectId = ''s1'', sequence = ''firstSequence'', marks = 18 \<rparr>,
      \<lparr> mark_id = ''m2'', studentId = ''a'', subjectId = ''s2'', sequence = ''firstSequence'', marks = 16 \<rparr>,
      \<lparr> mark_id = ''m3'', studentId = ''b'', subjectId = ''s1'', sequence = ''firstSequence'', marks = 10 \<rparr>,
      \<lparr> mark_id = ''m4'', studentId = ''b'', subjectId = ''s2'', sequence = ''firstSequence'', marks = 8 \<rparr>]"

text \<open>
  One student and four subjects out of 20, with the marks 17, 15.8, 3.4 and 3.8: the sum
  of the four doubles is 39.99999999999999 and the average 9.999999999999998.
\<close>

definition round_students :: "Student list" where
  "round_students =
     [\<lparr> student_id = ''r'', student_name = ''R'' \<rparr>]"

definition round_subjects :: "Subject list" where
  "round_subjects =
     [\<lparr> subject_id = ''s1'', subject_name = ''Maths'', total = 20 \<rparr>,
      \<lparr> subject_id = ''s2'', subject_name = ''English'', total = 20 \<rparr>,
      \<lparr> subject_id = ''s3'', subject_name = ''French'', total = 20 \<rparr>,
      \<lparr> subject_id = ''s4'', subject_name = ''History'', total = 20 \<rparr>]"

definition round_marks :: "Mark list" where
  "round_marks =
     [\<lparr> mark_id = ''m1'', studentId = ''r'', subjectId = ''s1'', sequence = ''firstSequence'', marks = 17 \<rparr>,
      \<lparr> mark_id = ''m2'', studentId = ''r'', subjectId = ''s2'', sequence = ''firstSequence'', marks = 79 / 5 \<rparr>,
      \<lparr> mark_id = ''m3'', studentId = ''r'', subjectId = ''s3'', sequence = ''firstSequence'', marks = 17 / 5 \<rparr>,
      \<lparr> mark_id = ''m4'', studentId = ''r'', subjectId = ''s4'', sequence = ''firstSequence'', marks = 19 / 5 \<rparr>]"

text \<open>
  Two subjects out of 1e308 and a student with full marks in both: the two sums overflow
  to \<open>Infinity\<close>.
\<close>

definition huge_students :: "Student list" where
  "huge_students =
     [\<lparr> student_id = ''h'', student_name = ''H'' \<rparr>]"

definition huge_subjects :: "Subject list" where
  "huge_subjects =
     [\<lparr> subject_id = ''s1'', subject_name = ''Maths'', total = 10 ^ 308 \<rparr>,
      \<lparr> subject_id = ''s2'', subject_name = ''English'', total = 10 ^ 308 \<rparr>]"

definition huge_marks :: "Mark list" where
  "huge_marks =
     [\<lparr> mark_id = ''m1'', studentId = ''h'', subjectId = ''s1'', sequence = ''firstSequence'', marks = 10 ^ 308 \<rparr>,
      \<lparr> mark_id = ''m2'', studentId = ''h'', subjectId = ''s2'', sequence = ''firstSequence'', marks = 10 ^ 308 \<rparr>]"

text \<open>
  Three students and three subjects out of 20. A has the marks 0.1, 0.2, 0.3, B and C have
  0.3, 0.2, 0.1: the sums of doubles are 0.6000000000000001 for A and 0.6 for B and C.
\<close>

definition tie_students :: "Student list" where
  "tie_students =
     [\<lparr> student_id = ''b'', student_name = ''B'' \<rparr>,
      \<lparr> student_id = ''a'', student_name = ''A'' \<rparr>,
      \<lparr> student_id = ''c'', student_name = ''C'' \<rparr>]"

definition tie_subjects :: "Subject list" where
  "tie_subjects =
     [\<lparr> subject_id = ''s1'', subject_name = ''Maths'', total = 20 \<rparr>,
      \<lparr> subject_id = ''s2'', subject_name = ''English'', total = 20 \<rparr>,
      \<lparr> subject_id = ''s3'', subject_name = ''French'', total = 20 \<rparr>]"

definition tie_marks :: "Mark list" where
  "tie_marks =
     [\<lparr> mark_id = ''m1'', studentId = ''a'', subjectId = ''s1'', sequence = ''firstSequence'', marks = 1 / 10 \<rparr>,
      \<lparr> mark_id = ''m2'', studentId = ''a'', subjectId = ''s2'', sequence = ''firstSequence'', marks = 1 / 5 \<rparr>,
      \<lparr> mark_id = ''m3'', studentId = ''a'', subjectId = ''s3'', sequence = ''firstSequence'', marks = 3 / 10 \<rparr>,
      \<lparr> mark_id = ''m4'', studentId = ''b'', subjectId = ''s1'', sequence = ''firstSequence'', marks = 3 / 10 \<rparr>,
      \<lparr> mark_id = ''m5'', studentId = ''b'', subjectId = ''s2'', sequence = ''firstSequence'', marks = 1 / 5 \<rparr>,
      \<lparr> mark_id = ''m6'', studentId = ''b'', subjectId = ''s3'', sequence = ''firstSequence'', marks = 1 / 10 \<rparr>,
      \<lparr> mark_id = ''m7'', studentId = ''c'', subjectId = ''s1'', sequence = ''firstSequence'', marks = 3 / 10 \<rparr>,
      \<lparr> mark_id = ''m8'', studentId = ''c'', subjectId = ''s2'', sequence = ''firstSequence'', marks = 1 / 5 \<rparr>,
      \<lparr> mark_id = ''m9'', studentId = ''c'', subjectId = ''s3'', sequence = ''firstSequence'', marks = 1 / 10 \<rparr>]"

text \<open>
  Two students and three subjects out of 20. E has 0.1, 0.2 and -0.3 in the first sequence,
  which doubles add up to 2^-54, and 5, 5, 5 in the second; Z has three marks of 0 in the
  first sequence and 10, 10, 10 in the second.
\<close>

definition entered_students :: "Student list" where
  "entered_students =
     [\<lparr> student_id = ''e'', student_name = ''E'' \<rparr>,
      \<lparr> student_id = ''z'', student_name = ''Z'' \<rparr>]"

definition entered_subjects :: "Subject list" where
  "entered_subjects =
     [\<lparr> subject_id = ''s1'', subject_name = ''Maths'', total = 20 \<rparr>,
      \<lparr> subject_id = ''s2'', subject_name = ''English'', total = 20 \<rparr>,
      \<lparr> subject_id = ''s3'', subject_name = ''French'', total = 20 \<rparr>]"

definition entered_marks :: "Mark list" where
  "entered_marks =
     [\<lparr> mark_id = ''m1'', studentId = ''e'', subjectId = ''s1'', sequence = ''firstSequence'', marks = 1 / 10 \<rparr>,
      \<lparr> mark_id = ''m2'', studentId = ''e'', subjectId = ''s2'', sequence = ''firstSequence'', marks = 1 / 5 \<rparr>,
      \<lparr> mark_id = ''m3'', studentId = ''e'', subjectId = ''s3'', sequence = ''firstSequence'', marks = - (3 / 10) \<rparr>,
      \<lparr> mark_id = ''m4'', studentId = ''e'', subjectId = ''s1'', sequence = ''secondSequence'', marks = 5 \<rparr>,
      \<lparr> mark_id = ''m5'', studentId = ''e'', subjectId = ''s2'', sequence = ''secondSequence'', marks = 5 \<rparr>,
      \<lparr> mark_id = ''m6'', studentId = ''e'', subjectId = ''s3'', sequence = ''secondSequence'', marks = 5 \<rparr>,
      \<lparr> mark_id = ''m7'', studentId = ''z'', subjectId = ''s1'', sequence = ''firstSequence'', marks = 0 \<rparr>,
      \<lparr> mark_id = ''m8'', studentId = ''z'', subjectId = ''s2'', sequence = ''firstSequence'', marks = 0 \<rparr>,
      \<lparr> mark_id = ''m9'', studentId = ''z'', subjectId = ''s3'', sequence = ''firstSequence'', marks = 0 \<rparr>,
      \<lparr> mark_id = ''m10'', studentId = ''z'', subjectId = ''s1'', sequence = ''secondSequence'', marks = 10 \<rparr>,
      \<lparr> mark_id = ''m11'', studentId = ''z'', subjectId = ''s2'', sequence = ''secondSequence'', marks = 10 \<rparr>,
      \<lparr> mark_id = ''m12'', studentId = ''z'', subjectId = ''s3'', sequence = ''secondSequence'', marks = 10 \<rparr>]"

text \<open>
  Three students and one subject out of 1e308. P has 2.5e307 and Q has 5e307 in the first
  sequence; N has 1e308 in both sequences of the first term, so that both sums of the term
  overflow.
\<close>

definition nan_students :: "Student list" where
  "nan_students =
     [\<lparr> student_id = ''p'', student_name = ''P'' \<rparr>,
      \<lparr> student_id = ''n'', student_name = ''N'' \<rparr>,
      \<lparr> student_id = ''q'', student_name = ''Q'' \<rparr>]"

definition nan_subjects :: "Subject list" where
  "nan_subjects =
     [\<lparr> subject_id = ''s1'', subject_name = ''Maths'', total = 10 ^ 308 \<rparr>]"

definition nan_marks :: "Mark list" where
  "nan_marks =
     [\<lparr> mark_id = ''m1'', studentId = ''p'', subjectId = ''s1'', sequence = ''firstSequence'', marks = 25 * 10 ^ 306 \<rparr>,
      \<lparr> mark_id = ''m2'', studentId = ''n'', subjectId = ''s1'', sequence = ''firstSequence'', marks = 10 ^ 308 \<rparr>,
      \<lparr> mark_id = ''m3'', studentId = ''n'', subjectId = ''s1'', sequence = ''secondSequence'', marks = 10 ^ 308 \<rparr>,
      \<lparr> mark_id = ''m4'', studentId = ''q'', subjectId = ''s1'', sequence = ''firstSequence'', marks = 5 * 10 ^ 307 \<rparr>]"




text \<open>
  Term result sets in which D has 14 in the first term and 16 in the third, and no row
  in the second; and two students of that name.
\<close>

definition d_first :: "Ranked list" where
  "d_first = [\<lparr> student = ''D'', totalMarks = Fin 28, average = Fin 14, rank = 1 \<rparr>]"

definition d_third :: "Ranked list" where
  "d_third = [\<lparr> student = ''D'', totalMarks = Fin 32, average = Fin 16, rank = 1 \<rparr>]"

definition d_student :: Student where
  "d_student = \<lparr> student_id = ''d1'', student_name = ''D'' \<rparr>"

definition d_namesake :: Student where
  "d_namesake = \<lparr> student_id = ''d2'', student_name = ''D'' \<rparr>"

text \<open>Term rows of four students, one of them with average 0.\<close>

definition stat_a :: Ranked where
  "stat_a = \<lparr> student = ''A'', totalMarks = Fin 20, average = Fin 10, rank = 1 \<rparr>"

definition stat_zero :: Ranked where
  "stat_zero = \<lparr> student = ''B'', totalMarks = Fin 0, average = Fin 0, rank = 4 \<rparr>"

definition stat_c :: Ranked where
  "stat_c = \<lparr> student = ''C'', totalMarks = Fin 10, average = Fin 5, rank = 2 \<rparr>"

definition stat_d :: Ranked where
  "stat_d = \<lparr> student = ''D'', totalMarks = Fin 10, average = Fin 5, rank = 3 \<rparr>"

text \<open>
  The state of the component when it is mounted, and the state that holds the example
  snapshot.
\<close>

definition initial_state :: AppState where
  "initial_state =
     \<lparr> students = [], subjects = [], markRecords = [],
       selectedSequence = ''firstSequence'', selectedResultView = ''sequence'',
       sequenceResults = [], firstTermResults = [], secondTermResults = [],
       thirdTermResults = [], annualResults = [],
       sequenceClassAverage = None, firstTermClassAverage = None,
       secondTermClassAverage = None, thirdTermClassAverage = None,
       annualClassAverage = None,
       sequencePassPercentage = None, firstTermPassPercentage = None,
       secondTermPassPercentage = None, thirdTermPassPercentage = None,
       annualPassPercentage = None \<rparr>"

definition ex_state :: AppState where
  "ex_state = initial_state \<lparr> students := ex_students, subjects := ex_subjects, markRecords := ex_marks \<rparr>"




text \<open>Annual rows of two students, one of them with finalAverage 0.\<close>

definition annual_d :: AnnualResult where
  "annual_d =
     \<lparr> annual_student = ''D'', firstTermAverage = Fin 14, secondTermAverage = Fin 0,
       thirdTermAverage = Fin 16, finalAverage = Fin 15, annual_rank = 1 \<rparr>"

definition annual_zero :: AnnualResult where
  "annual_zero =
     \<lparr> annual_student = ''B'', firstTermAverage = Fin 0, secondTermAverage = Fin 0,
       thirdTermAverage = Fin 0, finalAverage = Fin 0, annual_rank = 2 \<rparr>"

section \<open>Rounding\<close>

lemma bitlen_powi_bounds:
  assumes "0 < a"
  shows "(2::rat) powi (bitlen a - 1) \<le> of_int a" and "of_int a < (2::rat) powi bitlen a"
proof -
  have b1: "1 \<le> bitlen a" using assms bitlen_eq_zero_iff [of a] bitlen_nonneg [of a] by linarith
  have "2 ^ nat (bitlen a - 1) \<le> a" and "a < 2 ^ nat (bitlen a)"
    using bitlen_bounds [OF assms] by auto
  then have "(of_int (2 ^ nat (bitlen a - 1)) :: rat) \<le> of_int a"
    and "(of_int a :: rat) < of_int (2 ^ nat (bitlen a))"
    by (simp_all only: of_int_le_iff of_int_less_iff)
  then show "(2::rat) powi (bitlen a - 1) \<le> of_int a" and "of_int a < (2::rat) powi bitlen a"
    using b1 by (simp_all add: power_int_nonneg_exp bitlen_nonneg)
qed

lemma binade_bounds:
  assumes "0 < x"
  shows "2 powi binade x \<le> x" and "x < 2 powi (binade x + 1)"
proof -
  obtain a b where q: "quotient_of x = (a, b)" by (cases "quotient_of x")
  have b: "0 < b" using quotient_of_denom_pos [OF q] .
  have x: "x = of_int a / of_int b" using quotient_of_div [OF q] .
  have a: "0 < a" using assms b unfolding x by (simp add: zero_less_divide_iff)
  let ?k = "bitlen a - bitlen b"
  note A = bitlen_powi_bounds [OF a] and B = bitlen_powi_bounds [OF b]
  have bpos: "(0::rat) < of_int b" using b by simp
  have "x < 2 powi bitlen a / 2 powi (bitlen b - 1)"
    unfolding x using A(2) B(1) bpos a
    by (intro frac_less) simp_all
  also have "\<dots> = 2 powi (?k + 1)"
    by (simp add: power_int_diff [symmetric] algebra_simps)
  finally have up: "x < 2 powi (?k + 1)" .
  have "2 powi (bitlen a - 1) / 2 powi bitlen b < x"
    unfolding x using A(1) B(2) bpos a
    by (intro frac_less2) simp_all
  moreover have "(2::rat) powi (bitlen a - 1) / 2 powi bitlen b = 2 powi (?k - 1)"
    by (simp add: power_int_diff [symmetric] algebra_simps)
  ultimately have lo: "2 powi (?k - 1) < x" by simp
  show "2 powi binade x \<le> x"
    using lo by (simp add: binade_def q)
  show "x < 2 powi (binade x + 1)"
    using up by (auto simp: binade_def q not_le)
qed

lemma binade_eqI:
  assumes "(2::rat) powi e \<le> x" "x < 2 powi (e + 1)"
  shows "binade x = e"
proof -
  have x: "0 < x" using assms(1) by (meson less_le_trans zero_less_power_int zero_less_numeral)
  note b = binade_bounds [OF x]
  have "\<not> binade x < e"
  proof
    assume "binade x < e"
    then have "(2::rat) powi (binade x + 1) \<le> 2 powi e" by (intro power_int_increasing) simp_all
    then show False using b(2) assms(1) by simp
  qed
  moreover have "\<not> e < binade x"
  proof
    assume "e < binade x"
    then have "(2::rat) powi (e + 1) \<le> 2 powi binade x" by (intro power_int_increasing) simp_all
    then show False using b(1) assms(2) by simp
  qed
  ultimately show ?thesis by simp
qed

lemma fl_zero [simp]: "fl 0 = Fin 0"
  by (simp add: fl_def)

lemma fl_not_NaN [simp]: "fl x \<noteq> NaN"
  by (simp add: fl_def)

lemma round_half_even_eqI:
  assumes "of_int f \<le> x" "x < of_int f + 1"
    and "m = (if x - of_int f < 1 / 2 then f else if 1 / 2 < x - of_int f then f + 1
              else if even f then f else f + 1)"
  shows "round_half_even x = m"
proof -
  have "\<lfloor>x\<rfloor> = f" using assms(1,2) by (intro floor_unique) simp_all
  then show ?thesis by (simp add: round_half_even_def assms(3))
qed

lemma fl_eqI:
  assumes "(2::rat) powi e \<le> \<bar>x\<bar>" "\<bar>x\<bar> < 2 powi (e + 1)"
    and "p = max (e - 52) (- 1074)"
    and "of_int f \<le> x / 2 powi p" "x / 2 powi p < of_int f + 1"
    and "m = (if x / 2 powi p - of_int f < 1 / 2 then f else if 1 / 2 < x / 2 powi p - of_int f then f + 1
              else if even f then f else f + 1)"
    and "r = of_int m * 2 powi p"
  shows "fl x = (if 2 powi 1024 \<le> \<bar>r\<bar> then (if 0 < x then PInf else NInf) else Fin r)"
proof -
  have "(0::rat) < 2 powi e" by simp
  then have x0: "x \<noteq> 0" using assms(1) by linarith
  have "ulp_exp x = p" using binade_eqI [OF assms(1,2)] by (simp add: ulp_exp_def assms(3))
  moreover have "round_half_even (x / 2 powi p) = m"
    using assms(4-6) by (rule round_half_even_eqI)
  ultimately show ?thesis using x0 by (simp add: fl_def assms(7))
qed

lemma number_of_zero [simp]: "number_of 0 = Fin 0"
  by (simp add: number_of_def)

section \<open>Lemmas on the sort\<close>

lemma js_sub_self_not_pos: "\<not> js_gt (js_sub a a) (Fin 0)"
  by (cases a) (simp_all add: js_sub_def)

lemma mset_js_insert: "mset (js_insert cmp x ys) = add_mset x (mset ys)"
  by (induction ys) simp_all

lemma mset_js_sort: "mset (js_sort cmp xs) = mset xs"
  by (induction xs) (simp_all add: js_sort_def mset_js_insert)

lemma length_js_sort: "length (js_sort cmp xs) = length xs"
  using mset_js_sort [of cmp xs] by (metis size_mset)

lemma set_js_sort: "set (js_sort cmp xs) = set xs"
  using mset_js_sort [of cmp xs] by (metis set_mset_mset)

section \<open>Evaluations on doubles\<close>

text \<open>The sums, products and quotients of the example snapshots, each with the rounding it takes.\<close>

lemma ev_1: "number_of 17 = Fin 17"
  by (unfold number_of_def, (subst fl_eqI [where e = 4 and p = "- 48" and f = 4785074604081152 and m = 4785074604081152 and r = "17"])) simp_all

lemma ev_2: "js_add (Fin 0) (Fin 17) = Fin 17"
  by (unfold js_add.simps, (subst fl_eqI [where e = 4 and p = "- 48" and f = 4785074604081152 and m = 4785074604081152 and r = "17"])) simp_all

lemma ev_3: "number_of 20 = Fin 20"
  by (unfold number_of_def, (subst fl_eqI [where e = 4 and p = "- 48" and f = 5629499534213120 and m = 5629499534213120 and r = "20"])) simp_all

lemma ev_4: "js_add (Fin 0) (Fin 20) = Fin 20"
  by (unfold js_add.simps, (subst fl_eqI [where e = 4 and p = "- 48" and f = 5629499534213120 and m = 5629499534213120 and r = "20"])) simp_all

lemma ev_5: "number_of (79 / 5) = Fin (4447304632028365 / 281474976710656)"
  by (unfold number_of_def, (subst fl_eqI [where e = 3 and p = "- 49" and f = 8894609264056729 and m = 8894609264056730 and r = "4447304632028365 / 281474976710656"])) simp_all

lemma ev_6: "js_add (Fin 17) (Fin (4447304632028365 / 281474976710656)) = Fin (2308094809027379 / 70368744177664)"
  by (unfold js_add.simps, (subst fl_eqI [where e = 5 and p = "- 47" and f = 4616189618054758 and m = 4616189618054758 and r = "2308094809027379 / 70368744177664"])) simp_all

lemma ev_7: "js_add (Fin 20) (Fin 20) = Fin 40"
  by (unfold js_add.simps, (subst fl_eqI [where e = 5 and p = "- 47" and f = 5629499534213120 and m = 5629499534213120 and r = "40"])) simp_all

lemma ev_8: "number_of (17 / 5) = Fin (7656119366529843 / 2251799813685248)"
  by (unfold number_of_def, (subst fl_eqI [where e = 1 and p = "- 51" and f = 7656119366529843 and m = 7656119366529843 and r = "7656119366529843 / 2251799813685248"])) simp_all

lemma ev_9: "js_add (Fin (2308094809027379 / 70368744177664)) (Fin (7656119366529843 / 2251799813685248)) = Fin (5094697078462873 / 140737488355328)"
  by (unfold js_add.simps, (subst fl_eqI [where e = 5 and p = "- 47" and f = 5094697078462873 and m = 5094697078462873 and r = "5094697078462873 / 140737488355328"])) simp_all

lemma ev_10: "js_add (Fin 40) (Fin 20) = Fin 60"
  by (unfold js_add.simps, (subst fl_eqI [where e = 5 and p = "- 47" and f = 8444249301319680 and m = 8444249301319680 and r = "60"])) simp_all

lemma ev_11: "number_of (19 / 5) = Fin (4278419646001971 / 1125899906842624)"
  by (unfold number_of_def, (subst fl_eqI [where e = 1 and p = "- 51" and f = 8556839292003942 and m = 8556839292003942 and r = "4278419646001971 / 1125899906842624"])) simp_all

lemma ev_12: "js_add (Fin (5094697078462873 / 140737488355328)) (Fin (4278419646001971 / 1125899906842624)) = Fin (5629499534213119 / 140737488355328)"
  by (unfold js_add.simps, (subst fl_eqI [where e = 5 and p = "- 47" and f = 5629499534213119 and m = 5629499534213119 and r = "5629499534213119 / 140737488355328"])) simp_all

lemma ev_13: "js_add (Fin 60) (Fin 20) = Fin 80"
  by (unfold js_add.simps, (subst fl_eqI [where e = 6 and p = "- 46" and f = 5629499534213120 and m = 5629499534213120 and r = "80"])) simp_all

lemma ev_14: "js_div (Fin (5629499534213119 / 140737488355328)) (Fin 80) = Fin (4503599627370495 / 9007199254740992)"
  by (unfold js_div.simps, (subst fl_eqI [where e = "- 2" and p = "- 54" and f = 9007199254740990 and m = 9007199254740990 and r = "4503599627370495 / 9007199254740992"])) simp_all

lemma ev_15: "js_mul (Fin (4503599627370495 / 9007199254740992)) (Fin 20) = Fin (5629499534213119 / 562949953421312)"
  by (unfold js_mul.simps, (subst fl_eqI [where e = 3 and p = "- 49" and f = 5629499534213118 and m = 5629499534213119 and r = "5629499534213119 / 562949953421312"])) simp_all

lemma ev_16: "js_add (Fin 0) (Fin (5629499534213119 / 562949953421312)) = Fin (5629499534213119 / 562949953421312)"
  by (unfold js_add.simps, (subst fl_eqI [where e = 3 and p = "- 49" and f = 5629499534213119 and m = 5629499534213119 and r = "5629499534213119 / 562949953421312"])) simp_all

lemma ev_17: "js_div (Fin (5629499534213119 / 562949953421312)) (Fin 1) = Fin (5629499534213119 / 562949953421312)"
  by (unfold js_div.simps, (subst fl_eqI [where e = 3 and p = "- 49" and f = 5629499534213119 and m = 5629499534213119 and r = "5629499534213119 / 562949953421312"])) simp_all

lemma ev_18: "js_div (Fin 0) (Fin 1) = Fin 0"
  by simp

lemma ev_19: "js_mul (Fin 0) (Fin 100) = Fin 0"
  by simp

lemma ev_20: "number_of (1 / 10) = Fin (3602879701896397 / 36028797018963968)"
  by (unfold number_of_def, (subst fl_eqI [where e = "- 4" and p = "- 56" and f = 7205759403792793 and m = 7205759403792794 and r = "3602879701896397 / 36028797018963968"])) simp_all

lemma ev_21: "js_add (Fin 0) (Fin (3602879701896397 / 36028797018963968)) = Fin (3602879701896397 / 36028797018963968)"
  by (unfold js_add.simps, (subst fl_eqI [where e = "- 4" and p = "- 56" and f = 7205759403792794 and m = 7205759403792794 and r = "3602879701896397 / 36028797018963968"])) simp_all

lemma ev_22: "number_of (1 / 5) = Fin (3602879701896397 / 18014398509481984)"
  by (unfold number_of_def, (subst fl_eqI [where e = "- 3" and p = "- 55" and f = 7205759403792793 and m = 7205759403792794 and r = "3602879701896397 / 18014398509481984"])) simp_all

lemma ev_23: "js_add (Fin (3602879701896397 / 36028797018963968)) (Fin (3602879701896397 / 18014398509481984)) = Fin (1351079888211149 / 4503599627370496)"
  by (unfold js_add.simps, (subst fl_eqI [where e = "- 2" and p = "- 54" and f = 5404319552844595 and m = 5404319552844596 and r = "1351079888211149 / 4503599627370496"])) simp_all

lemma ev_24: "number_of (- (3 / 10)) = Fin (- (5404319552844595 / 18014398509481984))"
  by (unfold number_of_def, (subst fl_eqI [where e = "- 2" and p = "- 54" and f = "- 5404319552844596" and m = "- 5404319552844595" and r = "- (5404319552844595 / 18014398509481984)"])) simp_all

lemma ev_25: "js_add (Fin (1351079888211149 / 4503599627370496)) (Fin (- (5404319552844595 / 18014398509481984))) = Fin (1 / 18014398509481984)"
  by (unfold js_add.simps, (subst fl_eqI [where e = "- 54" and p = "- 106" and f = 4503599627370496 and m = 4503599627370496 and r = "1 / 18014398509481984"])) simp_all

lemma ev_26: "js_add (Fin 0) (Fin (1 / 18014398509481984)) = Fin (1 / 18014398509481984)"
  by (unfold js_add.simps, (subst fl_eqI [where e = "- 54" and p = "- 106" and f = 4503599627370496 and m = 4503599627370496 and r = "1 / 18014398509481984"])) simp_all

lemma ev_27: "js_add (Fin 0) (Fin 60) = Fin 60"
  by (unfold js_add.simps, (subst fl_eqI [where e = 5 and p = "- 47" and f = 8444249301319680 and m = 8444249301319680 and r = "60"])) simp_all

lemma ev_28: "number_of 5 = Fin 5"
  by (unfold number_of_def, (subst fl_eqI [where e = 2 and p = "- 50" and f = 5629499534213120 and m = 5629499534213120 and r = "5"])) simp_all

lemma ev_29: "js_add (Fin 0) (Fin 5) = Fin 5"
  by (unfold js_add.simps, (subst fl_eqI [where e = 2 and p = "- 50" and f = 5629499534213120 and m = 5629499534213120 and r = "5"])) simp_all

lemma ev_30: "js_add (Fin 5) (Fin 5) = Fin 10"
  by (unfold js_add.simps, (subst fl_eqI [where e = 3 and p = "- 49" and f = 5629499534213120 and m = 5629499534213120 and r = "10"])) simp_all

lemma ev_31: "js_add (Fin 10) (Fin 5) = Fin 15"
  by (unfold js_add.simps, (subst fl_eqI [where e = 3 and p = "- 49" and f = 8444249301319680 and m = 8444249301319680 and r = "15"])) simp_all

lemma ev_32: "js_add (Fin (1 / 18014398509481984)) (Fin 15) = Fin 15"
  by (unfold js_add.simps, (subst fl_eqI [where e = 3 and p = "- 49" and f = 8444249301319680 and m = 8444249301319680 and r = "15"])) simp_all

lemma ev_33: "js_add (Fin 60) (Fin 60) = Fin 120"
  by (unfold js_add.simps, (subst fl_eqI [where e = 6 and p = "- 46" and f = 8444249301319680 and m = 8444249301319680 and r = "120"])) simp_all

lemma ev_34: "js_div (Fin 15) (Fin 120) = Fin (1 / 8)"
  by (unfold js_div.simps, (subst fl_eqI [where e = "- 3" and p = "- 55" and f = 4503599627370496 and m = 4503599627370496 and r = "1 / 8"])) simp_all

lemma ev_35: "js_mul (Fin (1 / 8)) (Fin 20) = Fin (5 / 2)"
  by (unfold js_mul.simps, (subst fl_eqI [where e = 1 and p = "- 51" and f = 5629499534213120 and m = 5629499534213120 and r = "5 / 2"])) simp_all

lemma ev_36: "js_add (Fin 0) (Fin 0) = Fin 0"
  by simp

lemma ev_37: "number_of 10 = Fin 10"
  by (unfold number_of_def, (subst fl_eqI [where e = 3 and p = "- 49" and f = 5629499534213120 and m = 5629499534213120 and r = "10"])) simp_all

lemma ev_38: "js_add (Fin 0) (Fin 10) = Fin 10"
  by (unfold js_add.simps, (subst fl_eqI [where e = 3 and p = "- 49" and f = 5629499534213120 and m = 5629499534213120 and r = "10"])) simp_all

lemma ev_39: "js_add (Fin 10) (Fin 10) = Fin 20"
  by (unfold js_add.simps, (subst fl_eqI [where e = 4 and p = "- 48" and f = 5629499534213120 and m = 5629499534213120 and r = "20"])) simp_all

lemma ev_40: "js_add (Fin 20) (Fin 10) = Fin 30"
  by (unfold js_add.simps, (subst fl_eqI [where e = 4 and p = "- 48" and f = 8444249301319680 and m = 8444249301319680 and r = "30"])) simp_all

lemma ev_41: "js_add (Fin 0) (Fin 30) = Fin 30"
  by (unfold js_add.simps, (subst fl_eqI [where e = 4 and p = "- 48" and f = 8444249301319680 and m = 8444249301319680 and r = "30"])) simp_all

lemma ev_42: "js_div (Fin 30) (Fin 60) = Fin (1 / 2)"
  by (unfold js_div.simps, (subst fl_eqI [where e = "- 1" and p = "- 53" and f = 4503599627370496 and m = 4503599627370496 and r = "1 / 2"])) simp_all

lemma ev_43: "js_mul (Fin (1 / 2)) (Fin 20) = Fin 10"
  by (unfold js_mul.simps, (subst fl_eqI [where e = 3 and p = "- 49" and f = 5629499534213120 and m = 5629499534213120 and r = "10"])) simp_all

lemma ev_44: "number_of (3 / 10) = Fin (5404319552844595 / 18014398509481984)"
  by (unfold number_of_def, (subst fl_eqI [where e = "- 2" and p = "- 54" and f = 5404319552844595 and m = 5404319552844595 and r = "5404319552844595 / 18014398509481984"])) simp_all

lemma ev_45: "js_add (Fin 0) (Fin (5404319552844595 / 18014398509481984)) = Fin (5404319552844595 / 18014398509481984)"
  by (unfold js_add.simps, (subst fl_eqI [where e = "- 2" and p = "- 54" and f = 5404319552844595 and m = 5404319552844595 and r = "5404319552844595 / 18014398509481984"])) simp_all

lemma ev_46: "js_add (Fin (5404319552844595 / 18014398509481984)) (Fin (3602879701896397 / 18014398509481984)) = Fin (1 / 2)"
  by (unfold js_add.simps, (subst fl_eqI [where e = "- 1" and p = "- 53" and f = 4503599627370496 and m = 4503599627370496 and r = "1 / 2"])) simp_all

lemma ev_47: "js_add (Fin (1 / 2)) (Fin (3602879701896397 / 36028797018963968)) = Fin (5404319552844595 / 9007199254740992)"
  by (unfold js_add.simps, (subst fl_eqI [where e = "- 1" and p = "- 53" and f = 5404319552844595 and m = 5404319552844595 and r = "5404319552844595 / 9007199254740992"])) simp_all

lemma ev_48: "js_div (Fin (5404319552844595 / 9007199254740992)) (Fin 60) = Fin (5764607523034235 / 576460752303423488)"
  by (unfold js_div.simps, (subst fl_eqI [where e = "- 7" and p = "- 59" and f = 5764607523034234 and m = 5764607523034235 and r = "5764607523034235 / 576460752303423488"])) simp_all

lemma ev_49: "js_mul (Fin (5764607523034235 / 576460752303423488)) (Fin 20) = Fin (3602879701896397 / 18014398509481984)"
  by (unfold js_mul.simps, (subst fl_eqI [where e = "- 3" and p = "- 55" and f = 7205759403792793 and m = 7205759403792794 and r = "3602879701896397 / 18014398509481984"])) simp_all

lemma ev_50: "js_add (Fin (1351079888211149 / 4503599627370496)) (Fin (5404319552844595 / 18014398509481984)) = Fin (1351079888211149 / 2251799813685248)"
  by (unfold js_add.simps, (subst fl_eqI [where e = "- 1" and p = "- 53" and f = 5404319552844595 and m = 5404319552844596 and r = "1351079888211149 / 2251799813685248"])) simp_all

lemma ev_51: "js_div (Fin (1351079888211149 / 2251799813685248)) (Fin 60) = Fin (1441151880758559 / 144115188075855872)"
  by (unfold js_div.simps, (subst fl_eqI [where e = "- 7" and p = "- 59" and f = 5764607523034235 and m = 5764607523034236 and r = "1441151880758559 / 144115188075855872"])) simp_all

lemma ev_52: "js_mul (Fin (1441151880758559 / 144115188075855872)) (Fin 20) = Fin (7205759403792795 / 36028797018963968)"
  by (unfold js_mul.simps, (subst fl_eqI [where e = "- 3" and p = "- 55" and f = 7205759403792795 and m = 7205759403792795 and r = "7205759403792795 / 36028797018963968"])) simp_all

lemma ev_53: "js_sub (Fin (3602879701896397 / 18014398509481984)) (Fin (7205759403792795 / 36028797018963968)) = Fin (- (1 / 36028797018963968))"
  by (unfold js_sub_def js_neg.simps js_add.simps, (subst fl_eqI [where e = "- 55" and p = "- 107" and f = "- 4503599627370496" and m = "- 4503599627370496" and r = "- (1 / 36028797018963968)"])) simp_all

lemma ev_54: "js_sub (Fin (7205759403792795 / 36028797018963968)) (Fin (3602879701896397 / 18014398509481984)) = Fin (1 / 36028797018963968)"
  by (unfold js_sub_def js_neg.simps js_add.simps, (subst fl_eqI [where e = "- 55" and p = "- 107" and f = 4503599627370496 and m = 4503599627370496 and r = "1 / 36028797018963968"])) simp_all

lemma ev_55: "js_sub (Fin (3602879701896397 / 18014398509481984)) (Fin (3602879701896397 / 18014398509481984)) = Fin 0"
  by (simp add: js_sub_def)

lemma ev_56: "number_of 25000000000000000000000000000000000000000000000000000000000000000000000000000000000000000000000000000000000000000000000000000000000000000000000000000000000000000000000000000000000000000000000000000000000000000000000000000000000000000000000000000000000000000000000000000000000000000000000000000000000000000000 = Fin 25000000000000000274476590736011385435123077419327961584202670725789396351227872884290832244623672224765312417430293128902897570935785022082076752299536511507817916125733256796424372424897139760834596116541250294606724406553236294407022798946676864530695992542946103776322950723301968318243721428857555779584"
  by (unfold number_of_def, (subst fl_eqI [where e = 1021 and p = 969 and f = 5010420900022431 and m = 5010420900022432 and r = "25000000000000000274476590736011385435123077419327961584202670725789396351227872884290832244623672224765312417430293128902897570935785022082076752299536511507817916125733256796424372424897139760834596116541250294606724406553236294407022798946676864530695992542946103776322950723301968318243721428857555779584"])) simp_all

lemma ev_57: "js_add (Fin 0) (Fin 25000000000000000274476590736011385435123077419327961584202670725789396351227872884290832244623672224765312417430293128902897570935785022082076752299536511507817916125733256796424372424897139760834596116541250294606724406553236294407022798946676864530695992542946103776322950723301968318243721428857555779584) = Fin 25000000000000000274476590736011385435123077419327961584202670725789396351227872884290832244623672224765312417430293128902897570935785022082076752299536511507817916125733256796424372424897139760834596116541250294606724406553236294407022798946676864530695992542946103776322950723301968318243721428857555779584"
  by (unfold js_add.simps, (subst fl_eqI [where e = 1021 and p = 969 and f = 5010420900022432 and m = 5010420900022432 and r = "25000000000000000274476590736011385435123077419327961584202670725789396351227872884290832244623672224765312417430293128902897570935785022082076752299536511507817916125733256796424372424897139760834596116541250294606724406553236294407022798946676864530695992542946103776322950723301968318243721428857555779584"])) simp_all

lemma ev_58: "number_of 100000000000000000000000000000000000000000000000000000000000000000000000000000000000000000000000000000000000000000000000000000000000000000000000000000000000000000000000000000000000000000000000000000000000000000000000000000000000000000000000000000000000000000000000000000000000000000000000000000000000000000000 = Fin 100000000000000001097906362944045541740492309677311846336810682903157585404911491537163328978494688899061249669721172515611590283743140088328307009198146046031271664502933027185697489699588559043338384466165001178426897626212945177628091195786707458122783970171784415105291802893207873272974885715430223118336"
  by (unfold number_of_def, (subst fl_eqI [where e = 1023 and p = 971 and f = 5010420900022431 and m = 5010420900022432 and r = "100000000000000001097906362944045541740492309677311846336810682903157585404911491537163328978494688899061249669721172515611590283743140088328307009198146046031271664502933027185697489699588559043338384466165001178426897626212945177628091195786707458122783970171784415105291802893207873272974885715430223118336"])) simp_all

lemma ev_59: "js_add (Fin 0) (Fin 100000000000000001097906362944045541740492309677311846336810682903157585404911491537163328978494688899061249669721172515611590283743140088328307009198146046031271664502933027185697489699588559043338384466165001178426897626212945177628091195786707458122783970171784415105291802893207873272974885715430223118336) = Fin 100000000000000001097906362944045541740492309677311846336810682903157585404911491537163328978494688899061249669721172515611590283743140088328307009198146046031271664502933027185697489699588559043338384466165001178426897626212945177628091195786707458122783970171784415105291802893207873272974885715430223118336"
  by (unfold js_add.simps, (subst fl_eqI [where e = 1023 and p = 971 and f = 5010420900022432 and m = 5010420900022432 and r = "100000000000000001097906362944045541740492309677311846336810682903157585404911491537163328978494688899061249669721172515611590283743140088328307009198146046031271664502933027185697489699588559043338384466165001178426897626212945177628091195786707458122783970171784415105291802893207873272974885715430223118336"])) simp_all

lemma ev_60: "js_div (Fin 25000000000000000274476590736011385435123077419327961584202670725789396351227872884290832244623672224765312417430293128902897570935785022082076752299536511507817916125733256796424372424897139760834596116541250294606724406553236294407022798946676864530695992542946103776322950723301968318243721428857555779584) (Fin 100000000000000001097906362944045541740492309677311846336810682903157585404911491537163328978494688899061249669721172515611590283743140088328307009198146046031271664502933027185697489699588559043338384466165001178426897626212945177628091195786707458122783970171784415105291802893207873272974885715430223118336) = Fin (1 / 4)"
  by (unfold js_div.simps, (subst fl_eqI [where e = "- 2" and p = "- 54" and f = 4503599627370496 and m = 4503599627370496 and r = "1 / 4"])) simp_all

lemma ev_61: "js_mul (Fin (1 / 4)) (Fin 20) = Fin 5"
  by (unfold js_mul.simps, (subst fl_eqI [where e = 2 and p = "- 50" and f = 5629499534213120 and m = 5629499534213120 and r = "5"])) simp_all

lemma ev_62: "js_add (Fin 100000000000000001097906362944045541740492309677311846336810682903157585404911491537163328978494688899061249669721172515611590283743140088328307009198146046031271664502933027185697489699588559043338384466165001178426897626212945177628091195786707458122783970171784415105291802893207873272974885715430223118336) (Fin 100000000000000001097906362944045541740492309677311846336810682903157585404911491537163328978494688899061249669721172515611590283743140088328307009198146046031271664502933027185697489699588559043338384466165001178426897626212945177628091195786707458122783970171784415105291802893207873272974885715430223118336) = PInf"
  by (unfold js_add.simps, (subst fl_eqI [where e = 1024 and p = 972 and f = 5010420900022432 and m = 5010420900022432 and r = "200000000000000002195812725888091083480984619354623692673621365806315170809822983074326657956989377798122499339442345031223180567486280176656614018396292092062543329005866054371394979399177118086676768932330002356853795252425890355256182391573414916245567940343568830210583605786415746545949771430860446236672"])) simp_all

lemma ev_63: "number_of 50000000000000000000000000000000000000000000000000000000000000000000000000000000000000000000000000000000000000000000000000000000000000000000000000000000000000000000000000000000000000000000000000000000000000000000000000000000000000000000000000000000000000000000000000000000000000000000000000000000000000000000 = Fin 50000000000000000548953181472022770870246154838655923168405341451578792702455745768581664489247344449530624834860586257805795141871570044164153504599073023015635832251466513592848744849794279521669192233082500589213448813106472588814045597893353729061391985085892207552645901446603936636487442857715111559168"
  by (unfold number_of_def, (subst fl_eqI [where e = 1022 and p = 970 and f = 5010420900022431 and m = 5010420900022432 and r = "50000000000000000548953181472022770870246154838655923168405341451578792702455745768581664489247344449530624834860586257805795141871570044164153504599073023015635832251466513592848744849794279521669192233082500589213448813106472588814045597893353729061391985085892207552645901446603936636487442857715111559168"])) simp_all

lemma ev_64: "js_add (Fin 0) (Fin 50000000000000000548953181472022770870246154838655923168405341451578792702455745768581664489247344449530624834860586257805795141871570044164153504599073023015635832251466513592848744849794279521669192233082500589213448813106472588814045597893353729061391985085892207552645901446603936636487442857715111559168) = Fin 50000000000000000548953181472022770870246154838655923168405341451578792702455745768581664489247344449530624834860586257805795141871570044164153504599073023015635832251466513592848744849794279521669192233082500589213448813106472588814045597893353729061391985085892207552645901446603936636487442857715111559168"
  by (unfold js_add.simps, (subst fl_eqI [where e = 1022 and p = 970 and f = 5010420900022432 and m = 5010420900022432 and r = "50000000000000000548953181472022770870246154838655923168405341451578792702455745768581664489247344449530624834860586257805795141871570044164153504599073023015635832251466513592848744849794279521669192233082500589213448813106472588814045597893353729061391985085892207552645901446603936636487442857715111559168"])) simp_all

lemma ev_65: "js_div (Fin 50000000000000000548953181472022770870246154838655923168405341451578792702455745768581664489247344449530624834860586257805795141871570044164153504599073023015635832251466513592848744849794279521669192233082500589213448813106472588814045597893353729061391985085892207552645901446603936636487442857715111559168) (Fin 100000000000000001097906362944045541740492309677311846336810682903157585404911491537163328978494688899061249669721172515611590283743140088328307009198146046031271664502933027185697489699588559043338384466165001178426897626212945177628091195786707458122783970171784415105291802893207873272974885715430223118336) = Fin (1 / 2)"
  by (unfold js_div.simps, (subst fl_eqI [where e = "- 1" and p = "- 53" and f = 4503599627370496 and m = 4503599627370496 and r = "1 / 2"])) simp_all

lemma ev_66: "js_div (Fin 5) (Fin 0) = PInf"
  by simp

lemma ev_67: "number_of 18 = Fin 18"
  by (unfold number_of_def, (subst fl_eqI [where e = 4 and p = "- 48" and f = 5066549580791808 and m = 5066549580791808 and r = "18"])) simp_all

lemma ev_68: "js_add (Fin 0) (Fin 18) = Fin 18"
  by (unfold js_add.simps, (subst fl_eqI [where e = 4 and p = "- 48" and f = 5066549580791808 and m = 5066549580791808 and r = "18"])) simp_all

lemma ev_69: "number_of 16 = Fin 16"
  by (unfold number_of_def, (subst fl_eqI [where e = 4 and p = "- 48" and f = 4503599627370496 and m = 4503599627370496 and r = "16"])) simp_all

lemma ev_70: "js_add (Fin 18) (Fin 16) = Fin 34"
  by (unfold js_add.simps, (subst fl_eqI [where e = 5 and p = "- 47" and f = 4785074604081152 and m = 4785074604081152 and r = "34"])) simp_all

lemma ev_71: "js_div (Fin 34) (Fin 40) = Fin (7656119366529843 / 9007199254740992)"
  by (unfold js_div.simps, (subst fl_eqI [where e = "- 1" and p = "- 53" and f = 7656119366529843 and m = 7656119366529843 and r = "7656119366529843 / 9007199254740992"])) simp_all

lemma ev_72: "js_mul (Fin (7656119366529843 / 9007199254740992)) (Fin 20) = Fin 17"
  by (unfold js_mul.simps, (subst fl_eqI [where e = 4 and p = "- 48" and f = 4785074604081151 and m = 4785074604081152 and r = "17"])) simp_all

lemma ev_73: "number_of 8 = Fin 8"
  by (unfold number_of_def, (subst fl_eqI [where e = 3 and p = "- 49" and f = 4503599627370496 and m = 4503599627370496 and r = "8"])) simp_all

lemma ev_74: "js_add (Fin 10) (Fin 8) = Fin 18"
  by (unfold js_add.simps, (subst fl_eqI [where e = 4 and p = "- 48" and f = 5066549580791808 and m = 5066549580791808 and r = "18"])) simp_all

lemma ev_75: "js_div (Fin 18) (Fin 40) = Fin (8106479329266893 / 18014398509481984)"
  by (unfold js_div.simps, (subst fl_eqI [where e = "- 2" and p = "- 54" and f = 8106479329266892 and m = 8106479329266893 and r = "8106479329266893 / 18014398509481984"])) simp_all

lemma ev_76: "js_mul (Fin (8106479329266893 / 18014398509481984)) (Fin 20) = Fin 9"
  by (unfold js_mul.simps, (subst fl_eqI [where e = 3 and p = "- 49" and f = 5066549580791808 and m = 5066549580791808 and r = "9"])) simp_all

lemma ev_77: "js_sub (Fin 9) (Fin 17) = Fin (- 8)"
  by (unfold js_sub_def js_neg.simps js_add.simps, (subst fl_eqI [where e = 3 and p = "- 49" and f = "- 4503599627370496" and m = "- 4503599627370496" and r = "- 8"])) simp_all

lemma ev_78: "js_add (Fin 17) (Fin 9) = Fin 26"
  by (unfold js_add.simps, (subst fl_eqI [where e = 4 and p = "- 48" and f = 7318349394477056 and m = 7318349394477056 and r = "26"])) simp_all

lemma ev_79: "js_div (Fin 26) (Fin 2) = Fin 13"
  by (unfold js_div.simps, (subst fl_eqI [where e = 3 and p = "- 49" and f = 7318349394477056 and m = 7318349394477056 and r = "13"])) simp_all

lemma ev_80: "js_div (Fin 1) (Fin 2) = Fin (1 / 2)"
  by (unfold js_div.simps, (subst fl_eqI [where e = "- 1" and p = "- 53" and f = 4503599627370496 and m = 4503599627370496 and r = "1 / 2"])) simp_all

lemma ev_81: "js_mul (Fin (1 / 2)) (Fin 100) = Fin 50"
  by (unfold js_mul.simps, (subst fl_eqI [where e = 5 and p = "- 47" and f = 7036874417766400 and m = 7036874417766400 and r = "50"])) simp_all

lemma ev_82: "js_add (Fin 0) (Fin 34) = Fin 34"
  by (unfold js_add.simps, (subst fl_eqI [where e = 5 and p = "- 47" and f = 4785074604081152 and m = 4785074604081152 and r = "34"])) simp_all

lemma ev_83: "js_add (Fin 0) (Fin 40) = Fin 40"
  by (unfold js_add.simps, (subst fl_eqI [where e = 5 and p = "- 47" and f = 5629499534213120 and m = 5629499534213120 and r = "40"])) simp_all

lemma ev_84: "js_add (Fin 0) (Fin 14) = Fin 14"
  by (unfold js_add.simps, (subst fl_eqI [where e = 3 and p = "- 49" and f = 7881299347898368 and m = 7881299347898368 and r = "14"])) simp_all

lemma ev_85: "js_add (Fin 14) (Fin 16) = Fin 30"
  by (unfold js_add.simps, (subst fl_eqI [where e = 4 and p = "- 48" and f = 8444249301319680 and m = 8444249301319680 and r = "30"])) simp_all

lemma ev_86: "js_div (Fin 30) (Fin 2) = Fin 15"
  by (unfold js_div.simps, (subst fl_eqI [where e = 3 and p = "- 49" and f = 8444249301319680 and m = 8444249301319680 and r = "15"])) simp_all

lemma ev_87: "js_add (Fin 15) (Fin 5) = Fin 20"
  by (unfold js_add.simps, (subst fl_eqI [where e = 4 and p = "- 48" and f = 5629499534213120 and m = 5629499534213120 and r = "20"])) simp_all

lemma ev_88: "js_div (Fin 20) (Fin 3) = Fin (7505999378950827 / 1125899906842624)"
  by (unfold js_div.simps, (subst fl_eqI [where e = 2 and p = "- 50" and f = 7505999378950826 and m = 7505999378950827 and r = "7505999378950827 / 1125899906842624"])) simp_all

lemma ev_89: "js_div (Fin 1) (Fin 3) = Fin (6004799503160661 / 18014398509481984)"
  by (unfold js_div.simps, (subst fl_eqI [where e = "- 2" and p = "- 54" and f = 6004799503160661 and m = 6004799503160661 and r = "6004799503160661 / 18014398509481984"])) simp_all

lemma ev_90: "js_mul (Fin (6004799503160661 / 18014398509481984)) (Fin 100) = Fin (2345624805922133 / 70368744177664)"
  by (unfold js_mul.simps, (subst fl_eqI [where e = 5 and p = "- 47" and f = 4691249611844266 and m = 4691249611844266 and r = "2345624805922133 / 70368744177664"])) simp_all

lemma ev_91: "js_add (Fin 10) (Fin 0) = Fin 10"
  by (unfold js_add.simps, (subst fl_eqI [where e = 3 and p = "- 49" and f = 5629499534213120 and m = 5629499534213120 and r = "10"])) simp_all

lemma ev_92: "js_div (Fin 20) (Fin 4) = Fin 5"
  by (unfold js_div.simps, (subst fl_eqI [where e = 2 and p = "- 50" and f = 5629499534213120 and m = 5629499534213120 and r = "5"])) simp_all

lemma ev_93: "js_div (Fin 1) (Fin 4) = Fin (1 / 4)"
  by (unfold js_div.simps, (subst fl_eqI [where e = "- 2" and p = "- 54" and f = 4503599627370496 and m = 4503599627370496 and r = "1 / 4"])) simp_all

lemma ev_94: "js_mul (Fin (1 / 4)) (Fin 100) = Fin 25"
  by (unfold js_mul.simps, (subst fl_eqI [where e = 4 and p = "- 48" and f = 7036874417766400 and m = 7036874417766400 and r = "25"])) simp_all

lemma ev_95: "js_add (Fin 0) (Fin 15) = Fin 15"
  by (unfold js_add.simps, (subst fl_eqI [where e = 3 and p = "- 49" and f = 8444249301319680 and m = 8444249301319680 and r = "15"])) simp_all

lemma ev_96: "js_div (Fin 15) (Fin 1) = Fin 15"
  by (unfold js_div.simps, (subst fl_eqI [where e = 3 and p = "- 49" and f = 8444249301319680 and m = 8444249301319680 and r = "15"])) simp_all

lemma ev_97: "js_div (Fin 1) (Fin 1) = Fin 1"
  by (unfold js_div.simps, (subst fl_eqI [where e = 0 and p = "- 52" and f = 4503599627370496 and m = 4503599627370496 and r = "1"])) simp_all

lemma ev_98: "js_mul (Fin 1) (Fin 100) = Fin 100"
  by (unfold js_mul.simps, (subst fl_eqI [where e = 6 and p = "- 46" and f = 7036874417766400 and m = 7036874417766400 and r = "100"])) simp_all

lemma ev_99: "number_of 12 = Fin 12"
  by (unfold number_of_def, (subst fl_eqI [where e = 3 and p = "- 49" and f = 6755399441055744 and m = 6755399441055744 and r = "12"])) simp_all

lemma ev_100: "number_of 7 = Fin 7"
  by (unfold number_of_def, (subst fl_eqI [where e = 2 and p = "- 50" and f = 7881299347898368 and m = 7881299347898368 and r = "7"])) simp_all

lemmas ev =
  ev_1 ev_2 ev_3 ev_4 ev_5 ev_6 ev_7 ev_8 ev_9 ev_10 ev_11 ev_12 ev_13 ev_14 ev_15 ev_16
  ev_17 ev_18 ev_19 ev_20 ev_21 ev_22 ev_23 ev_24 ev_25 ev_26 ev_27 ev_28 ev_29 ev_30 ev_31
  ev_32 ev_33 ev_34 ev_35 ev_36 ev_37 ev_38 ev_39 ev_40 ev_41 ev_42 ev_43 ev_44 ev_45 ev_46
  ev_47 ev_48 ev_49 ev_50 ev_51 ev_52 ev_53 ev_54 ev_55 ev_56 ev_57 ev_58 ev_59 ev_60 ev_61
  ev_62 ev_63 ev_64 ev_65 ev_66 ev_67 ev_68 ev_69 ev_70 ev_71 ev_72 ev_73 ev_74 ev_75 ev_76
  ev_77 ev_78 ev_79 ev_80 ev_81 ev_82 ev_83 ev_84 ev_85 ev_86 ev_87 ev_88 ev_89 ev_90 ev_91
  ev_92 ev_93 ev_94 ev_95 ev_96 ev_97 ev_98 ev_99 ev_100

section \<open>The sequence aggregator computes the sums of the specification\<close>

lemma js_or0_fl: "js_or0 (fl x) = fl x"
  by (cases "fl x") (simp_all add: fl_not_NaN)

lemma find_mark_spec: "find_mark ms sid subid sq = spec_mark_value ms sid subid sq"
  by (simp add: find_mark_def spec_mark_value_def number_of_def js_or0_fl split: option.splits)

lemma sum_subjects_fold:
  "fold (\<lambda>subject (tm, tp). (js_add tm (f subject), js_add tp (g subject))) subs (a, b)
   = (fold (\<lambda>x s. js_add s x) (map f subs) a, fold (\<lambda>x s. js_add s x) (map g subs) b)"
  by (induction subs arbitrary: a b) simp_all

lemma sum_subjects_spec:
  "sum_subjects ms subs sid sq = (spec_totalMarks ms subs sid sq, spec_totalPossible subs)"
  unfolding sum_subjects_def sum_subjects_fold
  by (simp add: find_mark_spec spec_totalMarks_def spec_totalPossible_def js_sum_def)

lemma sequence_row_spec:
  "sequence_row ms subs sq st =
     \<lparr> student = student_name st,
       totalMarks = spec_totalMarks ms subs (student_id st) sq,
       average = spec_sequence_average ms subs sq st \<rparr>"
  by (simp add: sequence_row_def sum_subjects_spec spec_sequence_average_def spec_average_def)

lemma truncate_row_with_rank: "Row.truncate (row_with_rank (i, r)) = r"
  by (simp add: row_with_rank_def Row.truncate_def)

lemma map_truncate_zip:
  "length ns = length rs \<Longrightarrow> map Row.truncate (map row_with_rank (zip ns rs)) = rs"
  by (induction ns rs rule: list_induct2) (simp_all add: truncate_row_with_rank)

lemma truncate_resultsWithRank:
  "map Row.truncate (resultsWithRank rs) = js_sort (\<lambda>a b. js_sub (average b) (average a)) rs"
  by (simp add: resultsWithRank_def Let_def map_truncate_zip length_js_sort del: map_map)

lemma sequence_rows_spec:
  "sequence_rows sts subs ms sq =
     map (\<lambda>st. \<lparr> student = student_name st,
                 totalMarks = spec_totalMarks ms subs (student_id st) sq,
                 average = spec_sequence_average ms subs sq st \<rparr>) sts"
  by (simp add: sequence_rows_def sequence_row_spec)

lemma round_rows_eval:
  "map (\<lambda>st. \<lparr> student = student_name st,
               totalMarks = spec_totalMarks round_marks round_subjects (student_id st) ''firstSequence'',
               average = spec_sequence_average round_marks round_subjects ''firstSequence'' st \<rparr>)
     round_students
   = [\<lparr> student = ''R'', totalMarks = Fin (5629499534213119 / 140737488355328),
        average = Fin (5629499534213119 / 562949953421312) \<rparr>]"
  by (simp add: round_students_def round_subjects_def round_marks_def spec_sequence_average_def
      spec_totalMarks_def spec_mark_value_def spec_totalPossible_def spec_average_def js_sum_def
      ev del: js_add.simps(1) js_mul.simps(1) js_div.simps(1))

text \<open>
  C1. For every sequence label, student list, subject list and mark list, the row the
  sequence aggregator computes for a student has totalMarks equal to the sum over all
  subjects of the student's mark value for the sequence (0 where no Mark record matches),
  and average equal to totalMarks / totalPossible * 20 when totalPossible, the sum of all
  subjects' totals, is above 0, and 0 otherwise; the sums, the quotient and the product
  are those of doubles, the sums taken in the order of the subject list. The rows the
  handler publishes are these rows, reordered and ranked.
\<close>

theorem sequence_aggregator_sums:
  "sequence_rows sts subs ms sq =
     map (\<lambda>st. \<lparr> student = student_name st,
                 totalMarks = spec_totalMarks ms subs (student_id st) sq,
                 average = spec_sequence_average ms subs sq st \<rparr>) sts
   \<and> mset (map Row.truncate (sequenceResults (calculateSequenceResults s)))
       = mset (sequence_rows (students s) (subjects s) (markRecords s) (selectedSequence s))"
  by (simp add: sequence_rows_spec [symmetric] calculateSequenceResults_def Let_def
      truncate_resultsWithRank mset_js_sort del: mset_map)

theorem sequence_aggregator_sums_witness:
  "sequence_rows round_students round_subjects round_marks ''firstSequence'' =
     [\<lparr> student = ''R'', totalMarks = Fin (5629499534213119 / 140737488355328),
        average = Fin (5629499534213119 / 562949953421312) \<rparr>]"
  using conjunct1 [OF sequence_aggregator_sums
      [of round_students round_subjects round_marks "''firstSequence''"]]
  by (simp only: round_rows_eval)

section \<open>Term aggregator\<close>

lemma term_totals_fold:
  "fold (term_step ms subs sid) sqs (a, b, c) =
     (fold (\<lambda>x s. js_add s x) (map (spec_totalMarks ms subs sid) (filter (spec_entered ms subs sid) sqs)) a,
      fold (\<lambda>x s. js_add s x) (map (\<lambda>sq. spec_totalPossible subs) (filter (spec_entered ms subs sid) sqs)) b,
      c + length (filter (spec_entered ms subs sid) sqs))"
  by (induction sqs arbitrary: a b c)
     (simp_all add: term_step_def sum_subjects_spec spec_entered_def)

lemma term_totals_spec: "term_totals ms subs sqs sid = spec_term_totals ms subs sqs sid"
  by (simp add: term_totals_def term_totals_fold spec_term_totals_def js_sum_def)

lemma term_row_spec:
  "term_row ms subs sqs st =
     (case spec_term_totals ms subs sqs (student_id st) of
        (tm, tp, sequenceCount) \<Rightarrow>
          \<lparr> student = student_name st, totalMarks = tm,
            average = (if 0 < sequenceCount then js_mul (js_div tm tp) (Fin 20) else Fin 0),
            rank = 0 \<rparr>)"
  by (simp add: term_row_def term_totals_spec)

lemma entered_rows_eval:
  "spec_term_totals entered_marks entered_subjects termSequences_firstTerm ''e'' = (Fin 15, Fin 120, 2)
   \<and> spec_term_totals entered_marks entered_subjects termSequences_firstTerm ''z'' = (Fin 30, Fin 60, 1)
   \<and> spec_entered entered_marks entered_subjects ''e'' ''firstSequence''
   \<and> \<not> spec_entered entered_marks entered_subjects ''z'' ''firstSequence''"
  by (simp add: spec_term_totals_def spec_entered_def spec_totalMarks_def spec_mark_value_def
      spec_totalPossible_def entered_marks_def entered_subjects_def termSequences_firstTerm_def
      js_sum_def ev del: js_add.simps(1) js_mul.simps(1) js_div.simps(1))

text \<open>
  C3. For every term, the term aggregator treats a sequence as entered for a student iff
  the student's summed marks for it, a sum of doubles, are above 0 (marks that are all
  zero count as not entered); totalMarks and totalPossible add up the sequenceMarks and
  sequencePossible of the entered sequences only, sequenceCount counts them, and the
  average is totalMarks / totalPossible * 20 in doubles when sequenceCount > 0, else 0.
\<close>

theorem term_aggregator_entered:
  "term_totals ms subs sqs sid = spec_term_totals ms subs sqs sid
   \<and> term_rows sts subs ms sqs =
       map (\<lambda>st. case spec_term_totals ms subs sqs (student_id st) of
                    (tm, tp, sequenceCount) \<Rightarrow>
                      \<lparr> student = student_name st,
                        totalMarks = tm,
                        average = (if 0 < sequenceCount
                                   then js_mul (js_div tm tp) (Fin 20) else Fin 0),
                        rank = 0 \<rparr>) sts"
  by (simp add: term_rows_def term_totals_spec term_row_spec)

theorem term_aggregator_entered_witness:
  "term_totals entered_marks entered_subjects termSequences_firstTerm ''e'' = (Fin 15, Fin 120, 2)
   \<and> term_rows entered_students entered_subjects entered_marks termSequences_firstTerm
       = [\<lparr> student = ''E'', totalMarks = Fin 15, average = Fin (5 / 2), rank = 0 \<rparr>,
          \<lparr> student = ''Z'', totalMarks = Fin 30, average = Fin 10, rank = 0 \<rparr>]"
  using term_aggregator_entered [of entered_marks entered_subjects termSequences_firstTerm "''e''"
      entered_students] entered_rows_eval
  by (simp add: entered_students_def ev del: js_add.simps(1) js_mul.simps(1) js_div.simps(1))

section \<open>Annual aggregator\<close>

lemma js_gt0_or0: "js_gt (js_or0 x) (Fin 0) = js_gt x (Fin 0)"
  by (cases x) simp_all

lemma js_or0_pos: "js_gt x (Fin 0) \<Longrightarrow> js_or0 x = x"
  by (cases x) simp_all

lemma filter_pos_or0:
  "filter (\<lambda>avg. js_gt avg (Fin 0)) (map js_or0 xs) = filter (\<lambda>avg. js_gt avg (Fin 0)) xs"
  by (induction xs) (simp_all add: js_gt0_or0 js_or0_pos)

lemma find_average_spec: "find_average rs nm = js_or0 (spec_term_average rs nm)"
  by (simp add: find_average_def spec_term_average_def split: option.splits)

lemma js_div_count:
  "0 < n \<Longrightarrow> js_div x (Fin (of_nat n)) =
     (case x of Fin s \<Rightarrow> fl (s / of_nat n) | PInf \<Rightarrow> PInf | NInf \<Rightarrow> NInf | NaN \<Rightarrow> NaN)"
  by (cases x) simp_all

lemma annual_row_final:
  "finalAverage (annual_row f s t st) =
     spec_mean_valid [spec_term_average f (student_name st), spec_term_average s (student_name st),
                      spec_term_average t (student_name st)]"
proof -
  let ?xs = "[spec_term_average f (student_name st), spec_term_average s (student_name st),
              spec_term_average t (student_name st)]"
  have v: "validTerms (find_average f (student_name st)) (find_average s (student_name st))
             (find_average t (student_name st)) = filter (\<lambda>avg. js_gt avg (Fin 0)) ?xs"
    using filter_pos_or0 [of ?xs] by (simp add: validTerms_def find_average_spec)
  show ?thesis
    unfolding annual_row_def Let_def v spec_mean_valid_def by simp
qed

text \<open>
  C4. For every student list and three term result sets, the annual row of a student
  reads the three term averages by the student's display name (the id is not used), 0
  standing for a set with no row of that name; validTerms are those of the three that are
  above 0, and finalAverage is their arithmetic mean when there is one, else 0. The mean
  is the one of doubles: the sum of the values, taken in their order, divided by their
  count, each operation rounded.
\<close>

theorem annual_aggregator_mean:
  "annual_student (annual_row f s t st) = student_name st
   \<and> firstTermAverage (annual_row f s t st) = js_or0 (spec_term_average f (student_name st))
   \<and> secondTermAverage (annual_row f s t st) = js_or0 (spec_term_average s (student_name st))
   \<and> thirdTermAverage (annual_row f s t st) = js_or0 (spec_term_average t (student_name st))
   \<and> finalAverage (annual_row f s t st) =
       spec_mean_valid [spec_term_average f (student_name st), spec_term_average s (student_name st),
                        spec_term_average t (student_name st)]
   \<and> spec_mean_valid [] = Fin 0
   \<and> js_div (js_sum (map Fin (q # qs))) (Fin (of_nat (length (q # qs))))
       = (case js_sum (map Fin (q # qs)) of
            Fin total_sum \<Rightarrow> fl (total_sum / of_nat (length (q # qs)))
          | PInf \<Rightarrow> PInf | NInf \<Rightarrow> NInf | NaN \<Rightarrow> NaN)
   \<and> annualResults_rows sts f s t = map (annual_row f s t) sts"
  using annual_row_final [of f s t st] js_div_count [of "length (q # qs)" "js_sum (map Fin (q # qs))"]
  by (simp add: annual_row_def Let_def find_average_spec spec_mean_valid_def annualResults_rows_def
      del: length_Cons list.size of_nat_Suc)

theorem annual_aggregator_mean_witness:
  "annual_row d_first [] d_third d_student =
     \<lparr> annual_student = ''D'', firstTermAverage = Fin 14, secondTermAverage = Fin 0,
       thirdTermAverage = Fin 16, finalAverage = Fin 15, annual_rank = 0 \<rparr>
   \<and> finalAverage (annual_row d_first [] d_third d_namesake) = Fin 15"
proof -
  have "finalAverage (annual_row d_first [] d_third d_student) = Fin 15"
    and "finalAverage (annual_row d_first [] d_third d_namesake) = Fin 15"
    using annual_aggregator_mean [of d_first "[]" d_third d_student]
      annual_aggregator_mean [of d_first "[]" d_third d_namesake]
    by (simp_all add: spec_mean_valid_def spec_term_average_def d_first_def d_third_def
        d_student_def d_namesake_def js_sum_def ev
        del: js_add.simps(1) js_mul.simps(1) js_div.simps(1))
  moreover have "annual_row d_first [] d_third d_student =
     \<lparr> annual_student = ''D'', firstTermAverage = Fin 14, secondTermAverage = Fin 0,
       thirdTermAverage = Fin 16, finalAverage = finalAverage (annual_row d_first [] d_third d_student),
       annual_rank = 0 \<rparr>"
    by (simp add: annual_row_def Let_def find_average_def d_first_def d_third_def d_student_def)
  ultimately show ?thesis by simp
qed

section \<open>Statistics\<close>

lemma average_sequence_rows:
  "map average (sequence_rows sts subs ms sq) = map (spec_sequence_average ms subs sq) sts"
  by (simp add: sequence_rows_spec)

lemma classAvg_spec: "classAvg rs = js_or0 (spec_class_average (map average rs))"
  by (cases rs) (simp_all add: classAvg_def spec_class_average_def js_sum_def)

lemma passPerc_spec: "passPerc rs = spec_pass_percentage (map average rs)"
  by (cases rs)
     (simp_all add: passPerc_def passCount_def spec_pass_percentage_def PASSING_MARK_def
        filter_map o_def del: js_div.simps js_mul.simps)

lemma js_or0_not_NaN: "x \<noteq> NaN \<Longrightarrow> js_or0 x = x"
  by (cases x) simp_all

lemma round_stats_eval:
  "spec_class_average (map (spec_sequence_average round_marks round_subjects ''firstSequence'')
       round_students) = Fin (5629499534213119 / 562949953421312)
   \<and> spec_pass_percentage (map (spec_sequence_average round_marks round_subjects ''firstSequence'')
       round_students) = Fin 0"
  by (simp add: round_students_def round_subjects_def round_marks_def spec_sequence_average_def
      spec_totalMarks_def spec_mark_value_def spec_totalPossible_def spec_average_def js_sum_def
      spec_class_average_def spec_pass_percentage_def
      ev del: js_add.simps(1) js_mul.simps(1) js_div.simps(1))

lemma huge_rows_eval:
  "sequence_rows huge_students huge_subjects huge_marks ''firstSequence''
   = [\<lparr> student = ''H'', totalMarks = PInf, average = NaN \<rparr>]"
  by (simp add: sequence_rows_spec huge_students_def huge_subjects_def huge_marks_def
      spec_sequence_average_def spec_totalMarks_def spec_mark_value_def spec_totalPossible_def
      spec_average_def js_sum_def ev del: js_add.simps(1) js_mul.simps(1) js_div.simps(1))

text \<open>
  C5. For every student list, the sequence-level statistics are taken over all N
  students, those with average 0 included: the pass percentage is
  count(average >= 10) / N * 100 in doubles, and the class average is the mean of the N
  averages in doubles, with 0 in its place when that mean is \<open>NaN\<close>; both are 0 when
  N = 0. The handler publishes these two numbers.
\<close>

theorem sequence_statistics_all_students:
  "classAvg (sequence_rows sts subs ms sq)
     = js_or0 (spec_class_average (map (spec_sequence_average ms subs sq) sts))
   \<and> (spec_class_average (map (spec_sequence_average ms subs sq) sts) \<noteq> NaN \<longrightarrow>
        classAvg (sequence_rows sts subs ms sq)
          = spec_class_average (map (spec_sequence_average ms subs sq) sts))
   \<and> passPerc (sequence_rows sts subs ms sq)
       = spec_pass_percentage (map (spec_sequence_average ms subs sq) sts)
   \<and> map average (sequence_rows sts subs ms sq) = map (spec_sequence_average ms subs sq) sts
   \<and> spec_class_average [] = Fin 0
   \<and> spec_pass_percentage [] = Fin 0
   \<and> sequenceClassAverage (calculateSequenceResults s)
       = Some (js_or0 (spec_class_average
           (map (spec_sequence_average (markRecords s) (subjects s) (selectedSequence s)) (students s))))
   \<and> sequencePassPercentage (calculateSequenceResults s)
       = Some (spec_pass_percentage
           (map (spec_sequence_average (markRecords s) (subjects s) (selectedSequence s)) (students s)))"
proof -
  have e: "spec_class_average [] = Fin 0" "spec_pass_percentage [] = Fin 0"
    by (simp_all add: spec_class_average_def spec_pass_percentage_def)
  have h: "sequenceClassAverage (calculateSequenceResults s)
        = Some (classAvg (sequence_rows (students s) (subjects s) (markRecords s) (selectedSequence s)))"
    "sequencePassPercentage (calculateSequenceResults s)
        = Some (passPerc (sequence_rows (students s) (subjects s) (markRecords s) (selectedSequence s)))"
    by (simp_all add: calculateSequenceResults_def Let_def)
  show ?thesis
    unfolding h by (simp add: classAvg_spec passPerc_spec average_sequence_rows js_or0_not_NaN e)
qed

theorem sequence_statistics_all_students_witness:
  "classAvg (sequence_rows round_students round_subjects round_marks ''firstSequence'')
     = Fin (5629499534213119 / 562949953421312)
   \<and> passPerc (sequence_rows round_students round_subjects round_marks ''firstSequence'') = Fin 0
   \<and> classAvg (sequence_rows [] round_subjects round_marks ''firstSequence'') = Fin 0
   \<and> passPerc (sequence_rows [] round_subjects round_marks ''firstSequence'') = Fin 0"
  using sequence_statistics_all_students
      [of round_students round_subjects round_marks "''firstSequence''" initial_state]
    sequence_statistics_all_students [of "[]" round_subjects round_marks "''firstSequence''" initial_state]
    round_stats_eval
  by (simp add: sequence_rows_def)

text \<open>
  The original wording of C5 fails where an average is \<open>NaN\<close>: with two subjects out of
  1e308 and full marks in both, the only average is \<open>NaN\<close>, and so is the mean of the
  averages, while the class average that is published is 0.
\<close>

theorem sequence_statistics_nan_counterexample:
  "map average (sequence_rows huge_students huge_subjects huge_marks ''firstSequence'') = [NaN]
   \<and> spec_class_average [NaN] = NaN
   \<and> classAvg (sequence_rows huge_students huge_subjects huge_marks ''firstSequence'') = Fin 0"
  by (simp add: huge_rows_eval classAvg_def spec_class_average_def js_sum_def)

section \<open>Statistics of the term and annual result sets\<close>

lemma stats_of_spec:
  "stats_of avgs =
     (spec_class_average (filter (\<lambda>avg. js_gt avg (Fin 0)) avgs),
      spec_pass_percentage (filter (\<lambda>avg. js_gt avg (Fin 0)) avgs))"
  by (cases "filter (\<lambda>avg. js_gt avg (Fin 0)) avgs = []")
     (simp_all add: stats_of_def Let_def spec_class_average_def spec_pass_percentage_def
        PASSING_MARK_def del: js_div.simps js_mul.simps)

lemma stats_of_drop_zero: "stats_of (xs @ Fin 0 # ys) = stats_of (xs @ ys)"
  by (simp add: stats_of_spec)

lemma calculateStats_term:
  "calculateStats (TermRows rs) False =
     (spec_class_average (filter (\<lambda>avg. js_gt avg (Fin 0)) (map average rs)),
      spec_pass_percentage (filter (\<lambda>avg. js_gt avg (Fin 0)) (map average rs)))"
  by (simp add: calculateStats_def stats_of_spec)

lemma calculateStats_annual:
  "calculateStats (AnnualRows ars) True =
     (spec_class_average (filter (\<lambda>avg. js_gt avg (Fin 0)) (map finalAverage ars)),
      spec_pass_percentage (filter (\<lambda>avg. js_gt avg (Fin 0)) (map finalAverage ars)))"
  by (simp add: calculateStats_def stats_of_spec)

lemma js_sum_zero_Cons: "js_sum (Fin 0 # xs) = js_sum xs"
  by (simp add: js_sum_def)

lemma sequence_stats_count_zero:
  assumes "average z = Fin 0"
  shows "classAvg (z # rows)
           = js_or0 (js_div (js_sum (map average rows)) (Fin (of_nat (length rows) + 1)))"
    and "passPerc (z # rows)
           = js_mul (js_div (Fin (of_nat (passCount rows))) (Fin (of_nat (length rows) + 1))) (Fin 100)"
proof -
  show "classAvg (z # rows)
           = js_or0 (js_div (js_sum (map average rows)) (Fin (of_nat (length rows) + 1)))"
    using assms by (simp add: classAvg_def js_sum_zero_Cons add.commute del: js_div.simps)
  have "passCount (z # rows) = passCount rows"
    using assms by (simp add: passCount_def PASSING_MARK_def)
  then show "passPerc (z # rows)
           = js_mul (js_div (Fin (of_nat (passCount rows))) (Fin (of_nat (length rows) + 1))) (Fin 100)"
    by (simp add: passPerc_def add.commute del: js_div.simps js_mul.simps)
qed

lemma term_state_results:
  "firstTermResults (calculateTermResults s)
     = calculateTerm (students s) (subjects s) (markRecords s) ''firstTerm'' termSequences_firstTerm"
  "secondTermResults (calculateTermResults s)
     = calculateTerm (students s) (subjects s) (markRecords s) ''secondTerm'' termSequences_secondTerm"
  "thirdTermResults (calculateTermResults s)
     = calculateTerm (students s) (subjects s) (markRecords s) ''thirdTerm'' termSequences_thirdTerm"
  "annualResults (calculateTermResults s)
     = annualResultsWithRank (annualResults_rows (students s)
         (calculateTerm (students s) (subjects s) (markRecords s) ''firstTerm'' termSequences_firstTerm)
         (calculateTerm (students s) (subjects s) (markRecords s) ''secondTerm'' termSequences_secondTerm)
         (calculateTerm (students s) (subjects s) (markRecords s) ''thirdTerm'' termSequences_thirdTerm))"
  by (simp_all add: calculateTermResults_def Let_def)

lemma term_state_stats:
  "firstTermClassAverage (calculateTermResults s)
     = Some (fst (calculateStats (TermRows (calculateTerm (students s) (subjects s) (markRecords s)
         ''firstTerm'' termSequences_firstTerm)) False))"
  "firstTermPassPercentage (calculateTermResults s)
     = Some (snd (calculateStats (TermRows (calculateTerm (students s) (subjects s) (markRecords s)
         ''firstTerm'' termSequences_firstTerm)) False))"
  "secondTermClassAverage (calculateTermResults s)
     = Some (fst (calculateStats (TermRows (calculateTerm (students s) (subjects s) (markRecords s)
         ''secondTerm'' termSequences_secondTerm)) False))"
  "secondTermPassPercentage (calculateTermResults s)
     = Some (snd (calculateStats (TermRows (calculateTerm (students s) (subjects s) (markRecords s)
         ''secondTerm'' termSequences_secondTerm)) False))"
  "thirdTermClassAverage (calculateTermResults s)
     = Some (fst (calculateStats (TermRows (calculateTerm (students s) (subjects s) (markRecords s)
         ''thirdTerm'' termSequences_thirdTerm)) False))"
  "thirdTermPassPercentage (calculateTermResults s)
     = Some (snd (calculateStats (TermRows (calculateTerm (students s) (subjects s) (markRecords s)
         ''thirdTerm'' termSequences_thirdTerm)) False))"
  "annualClassAverage (calculateTermResults s)
     = Some (fst (calculateStats (AnnualRows (annualResults (calculateTermResults s))) True))"
  "annualPassPercentage (calculateTermResults s)
     = Some (snd (calculateStats (AnnualRows (annualResults (calculateTermResults s))) True))"
  by (simp_all add: calculateTermResults_def Let_def)

text \<open>
  C6. For every term and annual result set, the class average and the pass percentage
  are the statistics of the averages (finalAverage for the annual set) that are above 0
  only, computed in doubles: a row with average exactly 0 changes neither, while at
  sequence level such a row counts in the denominator of both. The statistics the term
  handler publishes are those of the rows it computes from the snapshot, for each of the
  three terms and for the year.
\<close>

theorem term_annual_statistics_positive_only:
  "calculateStats (TermRows rs) False =
     (spec_class_average (filter (\<lambda>avg. js_gt avg (Fin 0)) (map average rs)),
      spec_pass_percentage (filter (\<lambda>avg. js_gt avg (Fin 0)) (map average rs)))
   \<and> calculateStats (AnnualRows ars) True =
     (spec_class_average (filter (\<lambda>avg. js_gt avg (Fin 0)) (map finalAverage ars)),
      spec_pass_percentage (filter (\<lambda>avg. js_gt avg (Fin 0)) (map finalAverage ars)))
   \<and> (average z = Fin 0 \<longrightarrow>
        calculateStats (TermRows (rs @ z # rs')) False = calculateStats (TermRows (rs @ rs')) False)
   \<and> (finalAverage za = Fin 0 \<longrightarrow>
        calculateStats (AnnualRows (ars @ za # ars')) True = calculateStats (AnnualRows (ars @ ars')) True)
   \<and> (average z0 = Fin 0 \<longrightarrow>
        classAvg (z0 # rows)
          = js_or0 (js_div (js_sum (map average rows)) (Fin (of_nat (length rows) + 1)))
        \<and> passPerc (z0 # rows)
          = js_mul (js_div (Fin (of_nat (passCount rows))) (Fin (of_nat (length rows) + 1))) (Fin 100))
   \<and> firstTermClassAverage (calculateTermResults s)
       = Some (spec_class_average (filter (\<lambda>avg. js_gt avg (Fin 0)) (map average
           (calculateTerm (students s) (subjects s) (markRecords s) ''firstTerm''
              termSequences_firstTerm))))
   \<and> firstTermPassPercentage (calculateTermResults s)
       = Some (spec_pass_percentage (filter (\<lambda>avg. js_gt avg (Fin 0)) (map average
           (calculateTerm (students s) (subjects s) (markRecords s) ''firstTerm''
              termSequences_firstTerm))))
   \<and> secondTermClassAverage (calculateTermResults s)
       = Some (spec_class_average (filter (\<lambda>avg. js_gt avg (Fin 0)) (map average
           (calculateTerm (students s) (subjects s) (markRecords s) ''secondTerm''
              termSequences_secondTerm))))
   \<and> secondTermPassPercentage (calculateTermResults s)
       = Some (spec_pass_percentage (filter (\<lambda>avg. js_gt avg (Fin 0)) (map average
           (calculateTerm (students s) (subjects s) (markRecords s) ''secondTerm''
              termSequences_secondTerm))))
   \<and> thirdTermClassAverage (calculateTermResults s)
       = Some (spec_class_average (filter (\<lambda>avg. js_gt avg (Fin 0)) (map average
           (calculateTerm (students s) (subjects s) (markRecords s) ''thirdTerm''
              termSequences_thirdTerm))))
   \<and> thirdTermPassPercentage (calculateTermResults s)
       = Some (spec_pass_percentage (filter (\<lambda>avg. js_gt avg (Fin 0)) (map average
           (calculateTerm (students s) (subjects s) (markRecords s) ''thirdTerm''
              termSequences_thirdTerm))))
   \<and> annualClassAverage (calculateTermResults s)
       = Some (spec_class_average (filter (\<lambda>avg. js_gt avg (Fin 0)) (map finalAverage
           (annualResultsWithRank (annualResults_rows (students s)
              (calculateTerm (students s) (subjects s) (markRecords s) ''firstTerm''
                 termSequences_firstTerm)
              (calculateTerm (students s) (subjects s) (markRecords s) ''secondTerm''
                 termSequences_secondTerm)
              (calculateTerm (students s) (subjects s) (markRecords s) ''thirdTerm''
                 termSequences_thirdTerm))))))
   \<and> annualPassPercentage (calculateTermResults s)
       = Some (spec_pass_percentage (filter (\<lambda>avg. js_gt avg (Fin 0)) (map finalAverage
           (annualResultsWithRank (annualResults_rows (students s)
              (calculateTerm (students s) (subjects s) (markRecords s) ''firstTerm''
                 termSequences_firstTerm)
              (calculateTerm (students s) (subjects s) (markRecords s) ''secondTerm''
                 termSequences_secondTerm)
              (calculateTerm (students s) (subjects s) (markRecords s) ''thirdTerm''
                 termSequences_thirdTerm))))))"
proof -
  have c: "average z = Fin 0 \<longrightarrow>
        calculateStats (TermRows (rs @ z # rs')) False = calculateStats (TermRows (rs @ rs')) False"
    using stats_of_drop_zero [of "map average rs" "map average rs'"]
    by (simp add: calculateStats_def)
  have d: "finalAverage za = Fin 0 \<longrightarrow>
        calculateStats (AnnualRows (ars @ za # ars')) True = calculateStats (AnnualRows (ars @ ars')) True"
    using stats_of_drop_zero [of "map finalAverage ars" "map finalAverage ars'"]
    by (simp add: calculateStats_def)
  note h = term_state_stats [of s, unfolded term_state_results calculateStats_term
      calculateStats_annual fst_conv snd_conv]
  show ?thesis
    using calculateStats_term [of rs] calculateStats_annual [of ars] c d
      sequence_stats_count_zero [of z0 rows] h
    by blast
qed

theorem term_annual_statistics_positive_only_witness:
  "average stat_zero = Fin 0
   \<and> calculateStats (TermRows [stat_a, stat_zero, stat_c, stat_d]) False
       = (Fin (7505999378950827 / 1125899906842624), Fin (2345624805922133 / 70368744177664))
   \<and> calculateStats (TermRows [stat_a, stat_c, stat_d]) False
       = (Fin (7505999378950827 / 1125899906842624), Fin (2345624805922133 / 70368744177664))
   \<and> finalAverage annual_zero = Fin 0
   \<and> calculateStats (AnnualRows [annual_d, annual_zero]) True = (Fin 15, Fin 100)
   \<and> classAvg [Row.truncate stat_zero, Row.truncate stat_a, Row.truncate stat_c,
        Row.truncate stat_d] = Fin 5
   \<and> passPerc [Row.truncate stat_zero, Row.truncate stat_a, Row.truncate stat_c,
        Row.truncate stat_d] = Fin 25"
proof -
  note t = term_annual_statistics_positive_only
    [of "[stat_a]" "[annual_d]" stat_zero "[stat_c, stat_d]" annual_zero "[]"
        "Row.truncate stat_zero" "[Row.truncate stat_a, Row.truncate stat_c, Row.truncate stat_d]"
        initial_state]
  note dels = js_add.simps(1) js_mul.simps(1) js_div.simps(1)
  have z: "average stat_zero = Fin 0" by (simp add: stat_zero_def)
  have za: "finalAverage annual_zero = Fin 0" by (simp add: annual_zero_def)
  have z0: "average (Row.truncate stat_zero) = Fin 0"
    by (simp add: stat_zero_def Row.truncate_def)
  have 1: "calculateStats (TermRows [stat_a, stat_zero, stat_c, stat_d]) False
           = calculateStats (TermRows [stat_a, stat_c, stat_d]) False"
    using t z by simp
  have 2: "calculateStats (TermRows [stat_a, stat_c, stat_d]) False
       = (Fin (7505999378950827 / 1125899906842624), Fin (2345624805922133 / 70368744177664))"
    by (subst conjunct1 [OF term_annual_statistics_positive_only])
       (simp add: stat_a_def stat_c_def stat_d_def spec_class_average_def spec_pass_percentage_def
          js_sum_def ev del: dels)
  have 3: "classAvg [Row.truncate stat_zero, Row.truncate stat_a, Row.truncate stat_c,
        Row.truncate stat_d] = Fin 5
   \<and> passPerc [Row.truncate stat_zero, Row.truncate stat_a, Row.truncate stat_c,
        Row.truncate stat_d] = Fin 25"
    using t z0
    by (simp add: stat_a_def stat_c_def stat_d_def Row.truncate_def passCount_def PASSING_MARK_def
        js_sum_def ev del: dels)
  have 4: "calculateStats (AnnualRows [annual_d, annual_zero]) True
           = calculateStats (AnnualRows [annual_d]) True"
    using t za by simp
  have 5: "calculateStats (AnnualRows [annual_d]) True = (Fin 15, Fin 100)"
    by (subst conjunct1 [OF conjunct2 [OF term_annual_statistics_positive_only]])
       (simp add: annual_d_def spec_class_average_def spec_pass_percentage_def js_sum_def
          ev del: dels)
  show ?thesis using z za 1 2 3 4 5 by simp
qed

section \<open>The sequence handler run twice\<close>

lemma sequenceResults_calculate:
  "sequenceResults (calculateSequenceResults s)
   = resultsWithRank (sequence_rows (students s) (subjects s) (markRecords s) (selectedSequence s))"
  by (simp add: calculateSequenceResults_def Let_def)

lemma ex_state_snapshot:
  "students ex_state = ex_students" "subjects ex_state = ex_subjects"
  "markRecords ex_state = ex_marks" "selectedSequence ex_state = ''firstSequence''"
  by (simp_all add: ex_state_def initial_state_def)

lemma ex_rows_eval:
  "sequence_rows ex_students ex_subjects ex_marks ''firstSequence'' =
       [\<lparr> student = ''A'', totalMarks = Fin 34, average = Fin 17 \<rparr>,
        \<lparr> student = ''B'', totalMarks = Fin 18, average = Fin 9 \<rparr>]"
  by (simp add: sequence_rows_spec ex_students_def ex_subjects_def ex_marks_def
      spec_sequence_average_def spec_totalMarks_def spec_mark_value_def spec_totalPossible_def
      spec_average_def js_sum_def ev del: js_add.simps(1) js_mul.simps(1) js_div.simps(1))

lemma ex_ranked:
  "resultsWithRank (sequence_rows ex_students ex_subjects ex_marks ''firstSequence'') =
       [\<lparr> student = ''A'', totalMarks = Fin 34, average = Fin 17, rank = 1 \<rparr>,
        \<lparr> student = ''B'', totalMarks = Fin 18, average = Fin 9, rank = 2 \<rparr>]"
  by (simp add: ex_rows_eval resultsWithRank_def js_sort_def row_with_rank_def upt_rec
      ev del: js_add.simps(1) js_mul.simps(1) js_div.simps(1))

text \<open>
  C9. For every fixed snapshot (students, subjects, marks, selected sequence), running the
  sequence aggregator a second time yields the same state: the same ordered result rows,
  class average and pass percentage; the snapshot is left as it was, and the three results
  depend on the snapshot only.
\<close>

theorem sequence_aggregator_idempotent:
  "calculateSequenceResults (calculateSequenceResults s) = calculateSequenceResults s
   \<and> students (calculateSequenceResults s) = students s
   \<and> subjects (calculateSequenceResults s) = subjects s
   \<and> markRecords (calculateSequenceResults s) = markRecords s
   \<and> selectedSequence (calculateSequenceResults s) = selectedSequence s
   \<and> sequenceResults (calculateSequenceResults (calculateSequenceResults s))
       = sequenceResults (calculateSequenceResults s)
   \<and> sequenceClassAverage (calculateSequenceResults (calculateSequenceResults s))
       = sequenceClassAverage (calculateSequenceResults s)
   \<and> sequencePassPercentage (calculateSequenceResults (calculateSequenceResults s))
       = sequencePassPercentage (calculateSequenceResults s)
   \<and> (students s' = students s \<and> subjects s' = subjects s \<and> markRecords s' = markRecords s
        \<and> selectedSequence s' = selectedSequence s \<longrightarrow>
        sequenceResults (calculateSequenceResults s') = sequenceResults (calculateSequenceResults s)
        \<and> sequenceClassAverage (calculateSequenceResults s')
            = sequenceClassAverage (calculateSequenceResults s)
        \<and> sequencePassPercentage (calculateSequenceResults s')
            = sequencePassPercentage (calculateSequenceResults s))"
  by (simp add: calculateSequenceResults_def Let_def)

theorem sequence_aggregator_idempotent_witness:
  "students (calculateSequenceResults ex_state) = students ex_state
   \<and> subjects (calculateSequenceResults ex_state) = subjects ex_state
   \<and> markRecords (calculateSequenceResults ex_state) = markRecords ex_state
   \<and> selectedSequence (calculateSequenceResults ex_state) = selectedSequence ex_state
   \<and> sequenceResults (calculateSequenceResults ex_state) =
       [\<lparr> student = ''A'', totalMarks = Fin 34, average = Fin 17, rank = 1 \<rparr>,
        \<lparr> student = ''B'', totalMarks = Fin 18, average = Fin 9, rank = 2 \<rparr>]
   \<and> sequenceResults (calculateSequenceResults (calculateSequenceResults ex_state)) =
       [\<lparr> student = ''A'', totalMarks = Fin 34, average = Fin 17, rank = 1 \<rparr>,
        \<lparr> student = ''B'', totalMarks = Fin 18, average = Fin 9, rank = 2 \<rparr>]"
proof -
  note t = sequence_aggregator_idempotent [of ex_state "calculateSequenceResults ex_state"]
  have snap: "students (calculateSequenceResults ex_state) = students ex_state
      \<and> subjects (calculateSequenceResults ex_state) = subjects ex_state
      \<and> markRecords (calculateSequenceResults ex_state) = markRecords ex_state
      \<and> selectedSequence (calculateSequenceResults ex_state) = selectedSequence ex_state"
    using t by blast
  have twice: "sequenceResults (calculateSequenceResults (calculateSequenceResults ex_state))
      = sequenceResults (calculateSequenceResults ex_state)"
    using t snap by blast
  have once: "sequenceResults (calculateSequenceResults ex_state) =
       [\<lparr> student = ''A'', totalMarks = Fin 34, average = Fin 17, rank = 1 \<rparr>,
        \<lparr> student = ''B'', totalMarks = Fin 18, average = Fin 9, rank = 2 \<rparr>]"
    by (simp only: sequenceResults_calculate ex_state_snapshot ex_ranked)
  show ?thesis using snap twice once by (simp only: simp_thms)
qed

section \<open>Report compiler\<close>














section \<open>Defaults and lookup misses\<close>













end
